theory Spec2Isabelle
  imports Complex_Main "HOL-Library.Multiset" "HOL-Library.Product_Lexorder" "HOL-Library.Sublist"
begin

section \<open>Pairwise cointegration screening (pairs\_trading.py)\<close>

text \<open>
  The development follows \<^verbatim>\<open>src/pairs_trading.py\<close>: the class \<^verbatim>\<open>PairsAnalyzer\<close>
  (\<^verbatim>\<open>calculate_cointegration\<close>, \<^verbatim>\<open>analyze_pairs\<close>) and the part of \<^verbatim>\<open>main\<close> that starts
  where the aligned price matrix \<^verbatim>\<open>closes\<close> exists (the column check, the call of the
  analyzer, the CSV records and the lookup loop).

  Three things of the source are libraries and not code of the repository:
  \<^item> \<^verbatim>\<open>statsmodels.tsa.stattools.coint\<close>, the Engle-Granger test. It is a parameter
    \<open>coint\<close> of the model: a function of the two series that either raises or returns
    a score and a p-value.
  \<^item> \<^verbatim>\<open>ThreadPoolExecutor\<close> and \<^verbatim>\<open>as_completed\<close>. The constructor of the pool raises
    ValueError unless \<^verbatim>\<open>max_workers\<close> is positive. The jobs are pure, so all the pool
    contributes to the result after that is the order in which \<^verbatim>\<open>as_completed\<close> yields the
    futures. The program does not determine that order: \<^verbatim>\<open>as_completed\<close> first yields the
    futures that are already finished when it is called, in the iteration order of a
    set, and then the others as they finish. So the order is neither the order of
    enumeration nor, in general, the order in which the jobs completed. It is a parameter
    \<open>sched\<close> of the model: the list of job indices in the order in which they are yielded,
    any permutation of the indices.
  \<^item> pandas and numpy (\<^verbatim>\<open>Series.var\<close>, \<^verbatim>\<open>np.isclose\<close>), written out below.
\<close>

subsection \<open>Floats\<close>

text \<open>
  A Python float is modelled by the real number it denotes, or one of the special
  values nan, \<^verbatim>\<open>-inf\<close>, \<^verbatim>\<open>inf\<close> and the negative zero \<^verbatim>\<open>-0.0\<close> (\<open>Fin 0\<close> is the positive
  zero). Rounding of arithmetic is not modelled.
\<close>

datatype pyfloat = NaN | NInf | Fin real | NZero | PInf

text \<open>
  The place of a float in the order of the comparisons: the two infinities at the
  ends, the two zeros in the same place.
\<close>

fun flt_key :: "pyfloat \<Rightarrow> nat \<times> real" where
  "flt_key NaN = (0, 0)"
| "flt_key NInf = (1, 0)"
| "flt_key (Fin x) = (2, x)"
| "flt_key NZero = (2, 0)"
| "flt_key PInf = (3, 0)"

text \<open>Python's \<^verbatim>\<open><\<close> on floats: every comparison with nan is false.\<close>

definition flt_lt :: "pyfloat \<Rightarrow> pyfloat \<Rightarrow> bool" where
  "flt_lt a b = (a \<noteq> NaN \<and> b \<noteq> NaN \<and> flt_key a < flt_key b)"

subsection \<open>Configuration and data\<close>

text \<open>The fields of \<^verbatim>\<open>Config\<close> that the modelled code reads.\<close>

record config =
  coint_threshold :: pyfloat
  output_file :: string
  top_n_pairs :: int
  max_workers :: int
  min_data_points :: int

type_synonym symbol = string

type_synonym series = "real list"

text \<open>
  The price matrix \<^verbatim>\<open>closes\<close>: the columns in their order, each with its name. The
  names are pairwise different: \<^verbatim>\<open>main\<close> builds the matrix from a dictionary, and the
  matrix of the specification is a mapping from symbols to series. Prices are finite
  (\<^verbatim>\<open>main\<close> drops every column with a missing value).
\<close>

typedef dataframe = "{cs :: (symbol \<times> series) list. distinct (map fst cs)}"
  morphisms entries DataFrame
  by (rule exI [of _ "[]"]) simp

definition columns :: "dataframe \<Rightarrow> symbol list" where
  "columns closes = map fst (entries closes)"

datatype error = KeyError symbol | ValueError string

text \<open>\<^verbatim>\<open>closes[name]\<close>: the column of that name, or KeyError.\<close>

definition getitem :: "dataframe \<Rightarrow> symbol \<Rightarrow> error + series" where
  "getitem closes name =
     (case map_of (entries closes) name of None \<Rightarrow> Inl (KeyError name) | Some s \<Rightarrow> Inr s)"

subsection \<open>pandas and numpy\<close>

definition mean :: "series \<Rightarrow> real" where
  "mean xs = sum_list xs / real (length xs)"

text \<open>
  \<^verbatim>\<open>Series.var()\<close>: the sample variance (ddof = 1); nan when there are fewer than two
  values.
\<close>

definition var :: "series \<Rightarrow> pyfloat" where
  "var xs =
     (if length xs < 2 then NaN
      else Fin (sum_list (map (\<lambda>x. (mean xs - x)\<^sup>2) xs) / real (length xs - 1)))"

text \<open>
  \<^verbatim>\<open>np.isclose(a, 0)\<close> with the default tolerances: \<^verbatim>\<open>|a - 0| <= atol + rtol * |0|\<close> with
  \<^verbatim>\<open>atol = 1e-08\<close>; false for nan and for the infinities.
\<close>

definition isclose_zero :: "pyfloat \<Rightarrow> bool" where
  "isclose_zero a = (case a of Fin x \<Rightarrow> \<bar>x\<bar> \<le> 1 / 10 ^ 8 | NZero \<Rightarrow> True | _ \<Rightarrow> False)"

subsection \<open>PairsAnalyzer.calculate\_cointegration\<close>

text \<open>The dictionary \<^verbatim>\<open>{'score': score, 'pvalue': pvalue}\<close>.\<close>

record coint_result =
  score :: pyfloat
  pvalue :: pyfloat

text \<open>
  The library test: \<open>Inl msg\<close> when it raises, \<open>Inr (score, pvalue)\<close> when it returns.
\<close>

type_synonym coint_fn = "series \<Rightarrow> series \<Rightarrow> string + (pyfloat \<times> pyfloat)"

definition calculate_cointegration ::
  "config \<Rightarrow> coint_fn \<Rightarrow> series \<Rightarrow> series \<Rightarrow> coint_result option" where
  "calculate_cointegration cfg coint series1 series2 =
     (if int (length series1) < min_data_points cfg \<or> int (length series2) < min_data_points cfg
      then None
      else if isclose_zero (var series1) \<or> isclose_zero (var series2)
      then None
      else (case coint series1 series2 of
              Inr (sc, pv) \<Rightarrow> Some \<lparr>score = sc, pvalue = pv\<rparr>
            | Inl e \<Rightarrow> None))"

subsection \<open>PairsAnalyzer.analyze\_pairs\<close>

text \<open>\<^verbatim>\<open>itertools.combinations(xs, 2)\<close>: the first component varies slowest.\<close>

fun combinations2 :: "'a list \<Rightarrow> ('a \<times> 'a) list" where
  "combinations2 [] = []"
| "combinations2 (x # xs) = map (Pair x) xs @ combinations2 xs"

text \<open>A result tuple \<^verbatim>\<open>(*pair, result['pvalue'], result['score'])\<close>.\<close>

type_synonym pair_result = "symbol \<times> symbol \<times> pyfloat \<times> pyfloat"

definition pval :: "pair_result \<Rightarrow> pyfloat" where
  "pval r = fst (snd (snd r))"

text \<open>
  The key of \<^verbatim>\<open>results.sort(key=lambda x: x[2])\<close>, in the order of the comparisons.
  The sort compares keys with \<^verbatim>\<open><\<close> only; on keys other than nan that is the strict
  order of \<open>flt_key\<close> (lemma \<open>flt_lt_key\<close>), and no nan key reaches the sort (lemma
  \<open>collect_not_nan\<close>).
\<close>

definition pkey :: "pair_result \<Rightarrow> nat \<times> real" where
  "pkey r = flt_key (pval r)"

text \<open>
  A finished future together with the pair it is filed under in \<^verbatim>\<open>future_to_pair\<close>.
\<close>

type_synonym future = "coint_result option \<times> (symbol \<times> symbol)"

text \<open>
  \<^verbatim>\<open>executor.submit(self.calculate_cointegration, closes[pair[0]], closes[pair[1]])\<close>:
  the two columns are looked up when the job is submitted.
\<close>

definition submit :: "config \<Rightarrow> coint_fn \<Rightarrow> dataframe \<Rightarrow> symbol \<times> symbol \<Rightarrow> error + future" where
  "submit cfg coint closes pair =
     (case getitem closes (fst pair) of
        Inl e \<Rightarrow> Inl e
      | Inr s1 \<Rightarrow>
          (case getitem closes (snd pair) of
             Inl e \<Rightarrow> Inl e
           | Inr s2 \<Rightarrow> Inr (calculate_cointegration cfg coint s1 s2, pair)))"

text \<open>The dictionary comprehension over \<^verbatim>\<open>pairs\<close>; the first KeyError ends it.\<close>

fun submit_all ::
  "config \<Rightarrow> coint_fn \<Rightarrow> dataframe \<Rightarrow> (symbol \<times> symbol) list \<Rightarrow> error + future list" where
  "submit_all cfg coint closes [] = Inr []"
| "submit_all cfg coint closes (pair # pairs) =
     (case submit cfg coint closes pair of
        Inl e \<Rightarrow> Inl e
      | Inr f \<Rightarrow>
          (case submit_all cfg coint closes pairs of
             Inl e \<Rightarrow> Inl e
           | Inr fs \<Rightarrow> Inr (f # fs)))"

text \<open>
  \<^verbatim>\<open>as_completed\<close> yields every future once, in an order the program does not
  determine: \<open>sched\<close> lists the indices of the futures in the order in which they are
  yielded, and may be any permutation of the indices.
\<close>

definition yield_order :: "nat \<Rightarrow> nat list \<Rightarrow> bool" where
  "yield_order n sched = (mset sched = mset [0..<n])"

definition as_completed :: "nat list \<Rightarrow> 'a list \<Rightarrow> 'a list" where
  "as_completed sched futures = map (\<lambda>i. futures ! i) sched"

text \<open>
  The body of the \<^verbatim>\<open>for future in as_completed(...)\<close> loop: a dictionary is truthy,
  \<^verbatim>\<open>None\<close> is not.
\<close>

fun collect :: "pyfloat \<Rightarrow> future list \<Rightarrow> pair_result list" where
  "collect thr [] = []"
| "collect thr ((result, pair) # fs) =
     (case result of
        None \<Rightarrow> collect thr fs
      | Some r \<Rightarrow>
          (if flt_lt (pvalue r) thr
           then (fst pair, snd pair, pvalue r, score r) # collect thr fs
           else collect thr fs))"

text \<open>The slice \<^verbatim>\<open>xs[:k]\<close>; a negative \<open>k\<close> counts from the end.\<close>

definition slice_to :: "int \<Rightarrow> 'a list \<Rightarrow> 'a list" where
  "slice_to k xs = (if 0 \<le> k then take (nat k) xs else take (nat (int (length xs) + k)) xs)"

text \<open>
  \<^verbatim>\<open>ThreadPoolExecutor(max_workers=...)\<close> raises ValueError when \<^verbatim>\<open>max_workers\<close> is zero or
  negative, before any job is submitted.
\<close>

definition analyze_pairs ::
  "config \<Rightarrow> coint_fn \<Rightarrow> dataframe \<Rightarrow> nat list \<Rightarrow> error + (pair_result list \<times> pair_result list)" where
  "analyze_pairs cfg coint closes sched =
     (let pairs = combinations2 (columns closes) in
      if max_workers cfg \<le> 0 then Inl (ValueError ''max_workers must be greater than 0'')
      else
        case submit_all cfg coint closes pairs of
          Inl e \<Rightarrow> Inl e
        | Inr futures \<Rightarrow>
            (let results = collect (coint_threshold cfg) (as_completed sched futures);
                 results = sort_key pkey results;
                 top_pairs = slice_to (top_n_pairs cfg) results
             in Inr (results, top_pairs)))"

subsection \<open>Format specifications\<close>

text \<open>
  \<^verbatim>\<open>f"{x:.4f}"\<close> and \<^verbatim>\<open>f"{x:.2f}"\<close>: fixed-point notation with the given number of digits
  after the point, the exact value rounded half to even, the sign of the float kept
  (also when the digits are all zero); \<^verbatim>\<open>nan\<close>, \<^verbatim>\<open>inf\<close> and \<^verbatim>\<open>-inf\<close> for the special
  values.
\<close>

definition digit_char :: "nat \<Rightarrow> char" where
  "digit_char d = ''0123456789'' ! (d mod 10)"

fun digits_fixed :: "nat \<Rightarrow> nat \<Rightarrow> string" where
  "digits_fixed 0 m = []"
| "digits_fixed (Suc k) m = digits_fixed k (m div 10) @ [digit_char m]"

function show_nat :: "nat \<Rightarrow> string" where
  "show_nat m = (if m < 10 then [digit_char m] else show_nat (m div 10) @ [digit_char m])"
  by pat_completeness auto
termination
  by (relation "measure id") auto

declare show_nat.simps [simp del]

definition round_half_even :: "real \<Rightarrow> int" where
  "round_half_even x =
     (let f = \<lfloor>x\<rfloor>; d = x - of_int f
      in if d < 1 / 2 then f else if 1 / 2 < d then f + 1 else if even f then f else f + 1)"

definition format_f :: "nat \<Rightarrow> pyfloat \<Rightarrow> string" where
  "format_f n x =
     (case x of
        NaN \<Rightarrow> ''nan''
      | PInf \<Rightarrow> ''inf''
      | NInf \<Rightarrow> ''-inf''
      | NZero \<Rightarrow> ''-0'' @ (if n = 0 then [] else ''.'' @ replicate n (CHR ''0''))
      | Fin r \<Rightarrow>
          (let m = nat (round_half_even (\<bar>r\<bar> * 10 ^ n))
           in (if r < 0 then ''-'' else [])
              @ show_nat (m div 10 ^ n)
              @ (if n = 0 then [] else ''.'' @ digits_fixed n (m mod 10 ^ n))))"

subsection \<open>main: from the aligned matrix to the output file\<close>

text \<open>
  One record of \<^verbatim>\<open>output\<close>: the dictionary with the keys \<^verbatim>\<open>Pair\<close>, \<^verbatim>\<open>P-Value\<close> and
  \<^verbatim>\<open>Score\<close>, in that order.
\<close>

type_synonym output_record = "(string \<times> string) list"

definition output_record :: "pair_result \<Rightarrow> output_record" where
  "output_record pair =
     [(''Pair'', fst pair @ ''-'' @ fst (snd pair)),
      (''P-Value'', format_f 4 (fst (snd (snd pair)))),
      (''Score'', format_f 2 (snd (snd (snd pair))))]"

text \<open>
  What \<^verbatim>\<open>main\<close> has done when it leaves the analysis: either it logged an error and
  returned with nothing written, or it wrote the records of the top pairs to the
  output file and goes on to the lookup loop with the full list.
\<close>

datatype outcome =
  Aborted string
| Saved string "output_record list" "pair_result list"

definition main_analysis ::
  "config \<Rightarrow> coint_fn \<Rightarrow> dataframe \<Rightarrow> nat list \<Rightarrow> error + outcome" where
  "main_analysis cfg coint closes sched =
     (if length (columns closes) < 2
      then Inr (Aborted ''Insufficient data for pair analysis'')
      else (case analyze_pairs cfg coint closes sched of
              Inl e \<Rightarrow> Inl e
            | Inr (all_pairs, top_pairs) \<Rightarrow>
                (if top_pairs = []
                 then Inr (Aborted ''No cointegrated pairs found'')
                 else Inr (Saved (output_file cfg) (map output_record top_pairs) all_pairs))))"

subsection \<open>main: the lookup loop\<close>

text \<open>
  \<^verbatim>\<open>str.upper\<close> and \<^verbatim>\<open>str.strip\<close> as they act on ASCII text (\<open>ascii\<close> below): a
  \<open>string\<close> is a list of bytes, and the two functions are used on ASCII lines only.
\<close>

definition ascii :: "string \<Rightarrow> bool" where
  "ascii s = list_all (\<lambda>c. (of_char c :: nat) < 128) s"

definition upper_char :: "char \<Rightarrow> char" where
  "upper_char c =
     (case map_of (zip ''abcdefghijklmnopqrstuvwxyz'' ''ABCDEFGHIJKLMNOPQRSTUVWXYZ'') c of
        None \<Rightarrow> c
      | Some u \<Rightarrow> u)"

definition upper :: "string \<Rightarrow> string" where
  "upper s = map upper_char s"

definition is_space :: "char \<Rightarrow> bool" where
  "is_space c =
     (c \<in> set [CHR 0x09, CHR 0x0A, CHR 0x0B, CHR 0x0C, CHR 0x0D,
                CHR 0x1C, CHR 0x1D, CHR 0x1E, CHR 0x1F, CHR 0x20])"

definition strip :: "string \<Rightarrow> string" where
  "strip s = rev (dropWhile is_space (rev (dropWhile is_space s)))"

text \<open>\<^verbatim>\<open>s.split('/')[0]\<close>: what stands before the first slash, all of \<open>s\<close> without one.\<close>

definition split_root :: "string \<Rightarrow> string" where
  "split_root s = takeWhile (\<lambda>c. c \<noteq> CHR ''/'') s"

definition matching_pairs :: "pair_result list \<Rightarrow> string \<Rightarrow> pair_result list" where
  "matching_pairs all_pairs selected_input =
     filter (\<lambda>pair. split_root (fst pair) = selected_input
                   \<or> split_root (fst (snd pair)) = selected_input) all_pairs"

text \<open>The line printed for a pair, by \<^verbatim>\<open>LIST\<close> and by a symbol lookup alike.\<close>

definition pair_line :: "pair_result \<Rightarrow> string" where
  "pair_line pair =
     fst pair @ '' - '' @ fst (snd pair) @ '': p-value='' @ format_f 4 (fst (snd (snd pair)))
     @ '', score='' @ format_f 2 (snd (snd (snd pair)))"

text \<open>
  One turn of the \<^verbatim>\<open>while True\<close> loop on the line the user typed: the loop ends, or
  it prints lines and asks again.
\<close>

datatype reply = Exit | Printed "string list"

definition lookup :: "pair_result list \<Rightarrow> string \<Rightarrow> reply" where
  "lookup all_pairs line =
     (let selected_input = upper (strip line) in
      if selected_input = ''X'' then Exit
      else if selected_input = ''LIST''
      then Printed ((CHR 0x0A # ''All unique cointegrated pairs:'') # map pair_line all_pairs)
      else (let matching = matching_pairs all_pairs selected_input in
            if matching \<noteq> []
            then Printed ((CHR 0x0A # ''Cointegrated pairs containing '' @ selected_input @ '':'')
                          # map pair_line matching)
            else Printed [CHR 0x0A # ''No cointegrated pairs found for asset '' @ selected_input
                          @ ''. Please try another asset or press '' @ [CHR 0x27, CHR ''x'', CHR 0x27]
                          @ '' to exit.'']))"

subsection \<open>Auxiliary notions for the statements\<close>

text \<open>
  The column a name stands for, once the lookup is known to succeed (lemma
  \<open>getitem_col\<close>), and the future of a pair.
\<close>

definition col :: "dataframe \<Rightarrow> symbol \<Rightarrow> series" where
  "col closes name = (case getitem closes name of Inl e \<Rightarrow> [] | Inr s \<Rightarrow> s)"

definition job :: "config \<Rightarrow> coint_fn \<Rightarrow> dataframe \<Rightarrow> symbol \<times> symbol \<Rightarrow> future" where
  "job cfg coint closes pair =
     (calculate_cointegration cfg coint (col closes (fst pair)) (col closes (snd pair)), pair)"

text \<open>The futures in the order of submission, which is the order of enumeration.\<close>

definition futures_of :: "config \<Rightarrow> coint_fn \<Rightarrow> dataframe \<Rightarrow> future list" where
  "futures_of cfg coint closes = map (job cfg coint closes) (combinations2 (columns closes))"

text \<open>
  The list \<^verbatim>\<open>results\<close> as the loop leaves it, before the sort: the passing pairs in
  the order in which \<^verbatim>\<open>as_completed\<close> yielded their futures.
\<close>

definition collected :: "config \<Rightarrow> coint_fn \<Rightarrow> dataframe \<Rightarrow> nat list \<Rightarrow> pair_result list" where
  "collected cfg coint closes sched =
     collect (coint_threshold cfg) (as_completed sched (futures_of cfg coint closes))"

text \<open>The pairs that pass the filter, in enumeration order.\<close>

definition passing_pairs :: "config \<Rightarrow> coint_fn \<Rightarrow> dataframe \<Rightarrow> pair_result list" where
  "passing_pairs cfg coint closes = collect (coint_threshold cfg) (futures_of cfg coint closes)"

text \<open>
  The ranking in the words of the specification: the stable sort, by p-value, of the
  enumeration-ordered list of passing pairs.
\<close>

definition ranked_spec :: "config \<Rightarrow> coint_fn \<Rightarrow> dataframe \<Rightarrow> pair_result list" where
  "ranked_spec cfg coint closes = sort_key pkey (passing_pairs cfg coint closes)"

definition passes :: "pyfloat \<Rightarrow> future \<Rightarrow> bool" where
  "passes thr f = (case fst f of None \<Rightarrow> False | Some r \<Rightarrow> flt_lt (pvalue r) thr)"

definition tuple_of :: "future \<Rightarrow> pair_result" where
  "tuple_of f =
     (case fst f of
        None \<Rightarrow> (fst (snd f), snd (snd f), NaN, NaN)
      | Some r \<Rightarrow> (fst (snd f), snd (snd f), pvalue r, score r))"

text \<open>
  The test function that raises \<open>e\<close> on the series \<open>x\<close> and \<open>y\<close> and is \<open>coint\<close>
  everywhere else.
\<close>

definition raising_at :: "string \<Rightarrow> series \<Rightarrow> series \<Rightarrow> coint_fn \<Rightarrow> coint_fn" where
  "raising_at e x y coint = (\<lambda>u v. if u = x \<and> v = y then Inl e else coint u v)"

text \<open>
  The symbol lookup in the words of the specification: a pair matches if the root of
  either leg equals the query, letter case ignored.
\<close>

definition find_by_symbol_spec :: "string \<Rightarrow> pair_result list \<Rightarrow> pair_result list" where
  "find_by_symbol_spec query ranked =
     filter (\<lambda>pair. upper (split_root (fst pair)) = upper query
                   \<or> upper (split_root (fst (snd pair))) = upper query) ranked"

text \<open>The floats that are numbers: every value but \<^verbatim>\<open>nan\<close> and the two infinities.\<close>

definition is_finite :: "pyfloat \<Rightarrow> bool" where
  "is_finite x = (case x of Fin r \<Rightarrow> True | NZero \<Rightarrow> True | _ \<Rightarrow> False)"

text \<open>
  A number written with exactly \<open>n\<close> decimal places: an optional minus sign, at least
  one digit, the point, \<open>n\<close> digits.
\<close>

definition is_digit :: "char \<Rightarrow> bool" where
  "is_digit c = (c \<in> set ''0123456789'')"

definition has_decimals :: "nat \<Rightarrow> string \<Rightarrow> bool" where
  "has_decimals n s =
     (let body = (case s of [] \<Rightarrow> [] | c # cs \<Rightarrow> if c = CHR ''-'' then cs else s);
          ip = takeWhile is_digit body;
          rest = dropWhile is_digit body
      in ip \<noteq> [] \<and>
         (case rest of
            [] \<Rightarrow> False
          | c # fp \<Rightarrow> c = CHR ''.'' \<and> length fp = n \<and> list_all is_digit fp))"

subsection \<open>Concrete inputs\<close>

text \<open>\<^verbatim>\<open>Config()\<close> with the defaults of the source.\<close>

definition default_config :: config where
  "default_config =
     \<lparr>coint_threshold = Fin (5 / 100), output_file = ''pairs_to_trade.csv'',
      top_n_pairs = 10, max_workers = 8, min_data_points = 50\<rparr>"

text \<open>Fifty prices \<open>k, 2k, \<dots>, 50k\<close>, and a matrix of three such columns.\<close>

definition ramp :: "real \<Rightarrow> series" where
  "ramp k = map (\<lambda>i. real i * k) [1..<51]"

definition closes3 :: dataframe where
  "closes3 = DataFrame [(''A/USDT'', ramp 1), (''B/USDT'', ramp 2), (''C/USDT'', ramp 3)]"

text \<open>A matrix of one column, and the same matrix as \<open>closes3\<close> with a constant column.\<close>

definition closes1 :: dataframe where
  "closes1 = DataFrame [(''BTC/USDT'', ramp 1)]"


text \<open>
  What the library test answers for perfectly collinear series, the case whose
  \<^verbatim>\<open>CollinearityWarning\<close> the source silences: statistic \<^verbatim>\<open>-inf\<close>, p-value \<^verbatim>\<open>0.0\<close>.
  The columns of \<open>closes3\<close> are multiples of one another.
\<close>

definition collinear_coint :: coint_fn where
  "collinear_coint y x = Inr (NInf, Fin 0)"

text \<open>A stand-in for the library test that gives the pairs of \<open>closes3\<close> different p-values.\<close>

definition stub_coint :: coint_fn where
  "stub_coint y x = Inr (Fin (- (hd y + hd x)), Fin ((hd y + 2 * hd x) / 1000))"

text \<open>
  A ranking of three pairs over three perpetual contracts, and a ranking whose first
  symbol has lower-case letters.
\<close>

definition ranked_example :: "pair_result list" where
  "ranked_example =
     [(''ETH/USDT:USDT'', ''SOL/USDT:USDT'', Fin (1 / 100), Fin (- 4)),
      (''BTC/USDT:USDT'', ''ETH/USDT:USDT'', Fin (2 / 100), Fin (- 7 / 2)),
      (''BTC/USDT:USDT'', ''SOL/USDT:USDT'', Fin (3 / 100), Fin (- 3))]"

definition ranked_lower :: "pair_result list" where
  "ranked_lower = [(''btc/USDT'', ''ETH/USDT'', Fin (1 / 100), Fin (- 4))]"
section \<open>Properties\<close>

subsection \<open>Floats and enumeration\<close>

lemma flt_lt_key: "a \<noteq> NaN \<Longrightarrow> b \<noteq> NaN \<Longrightarrow> flt_lt a b = (flt_key a < flt_key b)"
  by (simp add: flt_lt_def)

lemma flt_lt_not_nan: "flt_lt a b \<Longrightarrow> a \<noteq> NaN \<and> b \<noteq> NaN"
  by (simp add: flt_lt_def)

lemma flt_lt_zeros: "\<not> flt_lt NZero (Fin 0) \<and> \<not> flt_lt (Fin 0) NZero"
  by (simp add: flt_lt_def)

lemma combinations2_set:
  "(a, b) \<in> set (combinations2 xs) \<Longrightarrow> a \<in> set xs \<and> b \<in> set xs"
  by (induction xs) auto

lemma combinations2_short: "length xs < 2 \<Longrightarrow> combinations2 xs = []"
  by (cases xs) simp_all

subsection \<open>The price matrix\<close>

lemma entries_DataFrame: "distinct (map fst cs) \<Longrightarrow> entries (DataFrame cs) = cs"
  by (simp add: DataFrame_inverse)

lemma distinct_columns: "distinct (columns closes)"
  using entries [of closes] by (simp add: columns_def)

subsection \<open>The submitted jobs\<close>

lemma getitem_col:
  "name \<in> set (columns closes) \<Longrightarrow> getitem closes name = Inr (col closes name)"
proof -
  assume "name \<in> set (columns closes)"
  then have "map_of (entries closes) name \<noteq> None"
    by (simp add: columns_def map_of_eq_None_iff)
  then show ?thesis
    by (auto simp: getitem_def col_def)
qed

lemma submit_job:
  "fst pair \<in> set (columns closes) \<Longrightarrow> snd pair \<in> set (columns closes) \<Longrightarrow>
   submit cfg coint closes pair = Inr (job cfg coint closes pair)"
  by (simp add: submit_def job_def getitem_col)

lemma submit_all_jobs:
  "\<forall>pair \<in> set pairs. fst pair \<in> set (columns closes) \<and> snd pair \<in> set (columns closes) \<Longrightarrow>
   submit_all cfg coint closes pairs = Inr (map (job cfg coint closes) pairs)"
  by (induction pairs) (simp_all add: submit_job)

lemma submit_all_futures:
  "submit_all cfg coint closes (combinations2 (columns closes)) = Inr (futures_of cfg coint closes)"
  unfolding futures_of_def
  by (rule submit_all_jobs) (auto dest: combinations2_set)

text \<open>
  No lookup of \<^verbatim>\<open>analyze_pairs\<close> fails, so with a positive number of workers it
  returns: the sorted list of what the loop collected, and its slice. Otherwise it
  raises the ValueError of the pool.
\<close>

lemma analyze_pairs_eq:
  "0 < max_workers cfg \<Longrightarrow>
   analyze_pairs cfg coint closes sched =
     Inr (sort_key pkey (collected cfg coint closes sched),
          slice_to (top_n_pairs cfg) (sort_key pkey (collected cfg coint closes sched)))"
  by (simp add: analyze_pairs_def submit_all_futures collected_def Let_def)

lemma analyze_pairs_no_workers:
  "max_workers cfg \<le> 0 \<Longrightarrow>
   analyze_pairs cfg coint closes sched = Inl (ValueError ''max_workers must be greater than 0'')"
  by (simp add: analyze_pairs_def Let_def)

lemma length_futures_of:
  "length (futures_of cfg coint closes) = length (combinations2 (columns closes))"
  by (simp add: futures_of_def)

subsection \<open>The order in which the futures are yielded\<close>

lemma mset_as_completed:
  assumes "yield_order (length fs) sched"
  shows "mset (as_completed sched fs) = mset fs"
proof -
  have "mset (map (\<lambda>i. fs ! i) sched) = image_mset (\<lambda>i. fs ! i) (mset sched)"
    by simp
  also have "\<dots> = image_mset (\<lambda>i. fs ! i) (mset [0..<length fs])"
    using assms by (simp only: yield_order_def)
  also have "\<dots> = mset (map (\<lambda>i. fs ! i) [0..<length fs])"
    by (simp only: mset_map)
  also have "\<dots> = mset fs"
    by (simp only: map_nth)
  finally show ?thesis
    by (simp add: as_completed_def)
qed

lemma as_completed_identity: "as_completed [0..<length fs] fs = fs"
  by (simp add: as_completed_def map_nth)

lemma yield_order_empty: "yield_order 0 sched \<Longrightarrow> sched = []"
  by (simp add: yield_order_def)

lemma yield_order_bound: "yield_order n sched \<Longrightarrow> i \<in> set sched \<Longrightarrow> i < n"
  by (metis atLeastLessThan_iff yield_order_def mset_eq_setD set_upt)

subsection \<open>The collecting loop\<close>

lemma collect_filter: "collect thr fs = map tuple_of (filter (passes thr) fs)"
  by (induction thr fs rule: collect.induct)
     (auto simp: passes_def tuple_of_def split: option.splits)

lemma mset_collect: "mset fs = mset gs \<Longrightarrow> mset (collect thr fs) = mset (collect thr gs)"
  by (simp add: collect_filter flip: mset_filter mset_map) (metis mset_filter mset_map)

lemma mset_collected:
  "yield_order (length (combinations2 (columns closes))) sched \<Longrightarrow>
   mset (collected cfg coint closes sched) = mset (passing_pairs cfg coint closes)"
  unfolding collected_def passing_pairs_def
  by (rule mset_collect) (simp add: mset_as_completed length_futures_of)

lemma collect_member:
  "(a, b, p, s) \<in> set (collect thr fs) \<longleftrightarrow>
     (Some \<lparr>score = s, pvalue = p\<rparr>, (a, b)) \<in> set fs \<and> flt_lt p thr"
  by (induction thr fs rule: collect.induct) (auto split: option.splits)

lemma collect_not_nan: "r \<in> set (collect thr fs) \<Longrightarrow> pval r \<noteq> NaN \<and> flt_lt (pval r) thr"
  by (cases r) (auto simp: collect_member pval_def dest: flt_lt_not_nan)

subsection \<open>Sorting\<close>

lemma filter_key_distinct:
  "distinct (map f xs) \<Longrightarrow> k \<in> set xs \<Longrightarrow> filter (\<lambda>x. f k = f x) xs = [k]"
proof (induction xs)
  case Nil
  then show ?case by simp
next
  case (Cons x xs)
  show ?case
  proof (cases "k = x")
    case True
    with Cons.prems have "filter (\<lambda>y. f k = f y) xs = []"
      by (auto simp: filter_empty_conv)
    with True show ?thesis by simp
  next
    case False
    with Cons.prems have kx: "k \<in> set xs"
      by simp
    with Cons.prems have "f k \<noteq> f x"
      by (metis distinct.simps(2) image_eqI list.simps(9) set_map)
    with Cons kx show ?thesis by simp
  qed
qed

lemma sorted_distinct_keys_unique:
  assumes "mset ys = mset xs" and "distinct (map f xs)" and "sorted (map f ys)"
  shows "sort_key f xs = ys"
proof (rule properties_for_sort_key)
  show "mset ys = mset xs" by fact
  show "sorted (map f ys)" by fact
  fix k assume k: "k \<in> set ys"
  have "mset (map f ys) = mset (map f xs)"
    using assms(1) by (metis mset_map)
  then have dy: "distinct (map f ys)"
    using assms(2) by (metis mset_eq_imp_distinct_iff)
  have kx: "k \<in> set xs"
    using k assms(1) by (metis mset_eq_setD)
  show "filter (\<lambda>x. f k = f x) ys = filter (\<lambda>x. f k = f x) xs"
    by (simp add: filter_key_distinct dy assms(2) k kx)
qed

lemma sorted_same_keys:
  assumes "mset ys = mset xs"
  shows "map f (sort_key f ys) = map f (sort_key f xs)"
proof -
  have "mset (map f (sort_key f ys)) = mset (map f (sort_key f xs))"
    using assms by (metis mset_map mset_sort)
  moreover have "sorted (map f (sort_key f ys))" "sorted (map f (sort_key f xs))"
    by simp_all
  ultimately show ?thesis
    by (metis sorted_sort_id sort_key_def mset_sort properties_for_sort)
qed


subsection \<open>Fewer than two columns\<close>

lemma analyze_pairs_short:
  assumes "length (columns closes) < 2"
    and "yield_order (length (combinations2 (columns closes))) sched"
    and "0 < max_workers cfg"
  shows "analyze_pairs cfg coint closes sched = Inr ([], [])"
proof -
  have pairs: "combinations2 (columns closes) = []"
    using assms(1) by (rule combinations2_short)
  with assms(2) have "sched = []"
    by (simp add: yield_order_empty)
  then have "collected cfg coint closes sched = []"
    by (simp add: collected_def as_completed_def)
  then show ?thesis
    using assms(3) by (simp add: analyze_pairs_eq slice_to_def)
qed

lemma main_analysis_short:
  "length (columns closes) < 2 \<Longrightarrow>
   main_analysis cfg coint closes sched = Inr (Aborted ''Insufficient data for pair analysis'')"
  by (simp add: main_analysis_def)

text \<open>
  Claim C10. Called directly on a matrix with fewer than two columns, with a
  configuration the pool accepts (a positive \<^verbatim>\<open>max_workers\<close>), \<^verbatim>\<open>analyze_pairs\<close> has no
  column check of its own and reports nothing: it enumerates no pair, no future is
  yielded, and it returns two empty lists. The check is made by the caller: \<^verbatim>\<open>main\<close>
  logs the error and returns before it calls the analyzer.
\<close>

theorem analyze_pairs_no_column_check:
  assumes "length (columns closes) < 2"
    and "yield_order (length (combinations2 (columns closes))) sched"
    and "0 < max_workers cfg"
  shows "combinations2 (columns closes) = []
       \<and> sched = []
       \<and> analyze_pairs cfg coint closes sched = Inr ([], [])
       \<and> main_analysis cfg coint closes sched
           = Inr (Aborted ''Insufficient data for pair analysis'')"
proof -
  have pairs: "combinations2 (columns closes) = []"
    using assms(1) by (rule combinations2_short)
  with assms(2) have "sched = []"
    by (simp add: yield_order_empty)
  with pairs analyze_pairs_short [OF assms] main_analysis_short [OF assms(1)]
  show ?thesis by simp
qed

lemma columns_closes1: "columns closes1 = [''BTC/USDT'']"
  by (simp add: columns_def closes1_def entries_DataFrame)

lemma columns_empty: "columns (DataFrame []) = []"
  by (simp add: columns_def entries_DataFrame)

lemma workers_default: "0 < max_workers default_config"
  by (simp add: default_config_def)

theorem analyze_pairs_no_column_check_witness:
  "length (columns closes1) < 2
   \<and> yield_order (length (combinations2 (columns closes1))) []
   \<and> 0 < max_workers default_config
   \<and> analyze_pairs default_config collinear_coint closes1 [] = Inr ([], [])
   \<and> analyze_pairs default_config collinear_coint (DataFrame []) [] = Inr ([], [])"
proof -
  have one: "length (columns closes1) < 2"
    by (simp add: columns_closes1)
  have sched1: "yield_order (length (combinations2 (columns closes1))) []"
    by (simp add: columns_closes1 yield_order_def)
  have none: "length (columns (DataFrame [])) < 2"
    by (simp add: columns_empty)
  have sched0: "yield_order (length (combinations2 (columns (DataFrame [])))) []"
    by (simp add: columns_empty yield_order_def)
  show ?thesis
    using one sched1 workers_default
      analyze_pairs_no_column_check [OF one sched1 workers_default, of collinear_coint]
      analyze_pairs_no_column_check [OF none sched0 workers_default, of collinear_coint]
    by simp
qed

text \<open>
  Claim C6. When the aligned price matrix has fewer than two columns, \<^verbatim>\<open>main\<close> logs
  the error and returns at once: the outcome is the same whatever the test function
  and the order of the futures are (no pairwise work takes part in it), and it is not
  \<open>Saved\<close>: there are no results and no output file.
\<close>

theorem main_insufficient_columns:
  assumes "length (columns closes) < 2"
  shows "main_analysis cfg coint closes sched
           = Inr (Aborted ''Insufficient data for pair analysis'')
       \<and> main_analysis cfg coint closes sched = main_analysis cfg coint' closes sched'
       \<and> (\<forall>file records all_pairs.
            main_analysis cfg coint closes sched \<noteq> Inr (Saved file records all_pairs))"
  using assms by (simp add: main_analysis_def)

theorem main_insufficient_columns_witness:
  "length (columns closes1) < 2
   \<and> main_analysis default_config collinear_coint closes1 [0]
       = Inr (Aborted ''Insufficient data for pair analysis'')"
proof -
  have one: "length (columns closes1) < 2"
    by (simp add: columns_closes1)
  show ?thesis
    using one main_insufficient_columns [OF one, of default_config collinear_coint "[0]"]
    by simp
qed


subsection \<open>The concrete inputs evaluated\<close>

lemma mean_scale: "mean (map (\<lambda>x. x * k) xs) = mean xs * k"
  by (simp add: mean_def sum_list_mult_const)

lemma var_scale:
  "var (map (\<lambda>x. x * k) xs) = (case var xs of Fin v \<Rightarrow> Fin (v * k\<^sup>2) | w \<Rightarrow> w)"
proof -
  have "sum_list (map (\<lambda>x. (mean xs * k - x * k)\<^sup>2) xs)
          = sum_list (map (\<lambda>x. (mean xs - x)\<^sup>2) xs) * k\<^sup>2"
    by (simp add: power_mult_distrib flip: sum_list_mult_const left_diff_distrib)
  then show ?thesis
    by (simp add: var_def mean_scale comp_def)
qed

lemma var_ramp_one: "var (ramp 1) = Fin (425 / 2)"
  by (simp add: var_def mean_def ramp_def upt_conv_Cons power2_eq_square)

lemma var_ramp: "var (ramp k) = Fin (425 / 2 * k\<^sup>2)"
proof -
  have "ramp k = map (\<lambda>x. x * k) (ramp 1)"
    by (simp add: ramp_def)
  then show ?thesis
    by (simp add: var_scale var_ramp_one)
qed

lemma length_ramp: "length (ramp k) = 50"
  by (simp add: ramp_def)

lemma hd_ramp: "hd (ramp k) = k"
  by (simp add: ramp_def hd_map upt_conv_Cons)

lemma calculate_cointegration_ramp:
  "1 \<le> \<bar>k\<bar> \<Longrightarrow> 1 \<le> \<bar>j\<bar> \<Longrightarrow>
   calculate_cointegration default_config coint (ramp k) (ramp j) =
     (case coint (ramp k) (ramp j) of
        Inr (sc, pv) \<Rightarrow> Some \<lparr>score = sc, pvalue = pv\<rparr>
      | Inl e \<Rightarrow> None)"
proof -
  assume k: "1 \<le> \<bar>k\<bar>" and j: "1 \<le> \<bar>j\<bar>"
  have big: "\<not> 425 / 2 * x\<^sup>2 \<le> 1 / 10 ^ 8" if "1 \<le> \<bar>x\<bar>" for x :: real
  proof -
    have "1 \<le> x\<^sup>2"
      using that by (metis abs_le_square_iff abs_one one_power2)
    then show ?thesis by simp
  qed
  show ?thesis
    using big [OF k] big [OF j]
    by (simp add: calculate_cointegration_def default_config_def length_ramp var_ramp
                  isclose_zero_def abs_mult)
qed

lemma entries_closes3:
  "entries closes3 = [(''A/USDT'', ramp 1), (''B/USDT'', ramp 2), (''C/USDT'', ramp 3)]"
  by (simp add: closes3_def entries_DataFrame)

lemma columns_closes3: "columns closes3 = [''A/USDT'', ''B/USDT'', ''C/USDT'']"
  by (simp add: columns_def entries_closes3)

lemma closes3_order: "yield_order (length (combinations2 (columns closes3))) [1, 0, 2]"
  by (simp add: columns_closes3 yield_order_def upt_conv_Cons del: mset_upt)

lemma closes3_order_id: "yield_order (length (combinations2 (columns closes3))) [0, 1, 2]"
  by (simp add: columns_closes3 yield_order_def upt_conv_Cons del: mset_upt)

lemma col_closes3:
  "col closes3 ''A/USDT'' = ramp 1"
  "col closes3 ''B/USDT'' = ramp 2"
  "col closes3 ''C/USDT'' = ramp 3"
  by (simp_all add: col_def getitem_def entries_closes3)

lemma default_config_fields:
  "coint_threshold default_config = Fin (5 / 100)"
  "top_n_pairs default_config = 10"
  "min_data_points default_config = 50"
  "output_file default_config = ''pairs_to_trade.csv''"
  "max_workers default_config = 8"
  by (simp_all add: default_config_def)

lemma futures_closes3:
  "futures_of default_config coint closes3 =
     map (\<lambda>(a, k, b, j).
            (case coint (ramp k) (ramp j) of
               Inr (sc, pv) \<Rightarrow> Some \<lparr>score = sc, pvalue = pv\<rparr>
             | Inl e \<Rightarrow> None, (a, b)))
       [(''A/USDT'', 1, ''B/USDT'', 2),
        (''A/USDT'', 1, ''C/USDT'', 3),
        (''B/USDT'', 2, ''C/USDT'', 3)]"
  by (simp add: futures_of_def columns_closes3 job_def col_closes3
                calculate_cointegration_ramp)

lemma futures_collinear:
  "futures_of default_config collinear_coint closes3 =
     [(Some \<lparr>score = NInf, pvalue = Fin 0\<rparr>, (''A/USDT'', ''B/USDT'')),
      (Some \<lparr>score = NInf, pvalue = Fin 0\<rparr>, (''A/USDT'', ''C/USDT'')),
      (Some \<lparr>score = NInf, pvalue = Fin 0\<rparr>, (''B/USDT'', ''C/USDT''))]"
  by (simp add: futures_closes3 collinear_coint_def)

lemma futures_stub:
  "futures_of default_config stub_coint closes3 =
     [(Some \<lparr>score = Fin (- 3), pvalue = Fin (5 / 1000)\<rparr>, (''A/USDT'', ''B/USDT'')),
      (Some \<lparr>score = Fin (- 4), pvalue = Fin (7 / 1000)\<rparr>, (''A/USDT'', ''C/USDT'')),
      (Some \<lparr>score = Fin (- 5), pvalue = Fin (8 / 1000)\<rparr>, (''B/USDT'', ''C/USDT''))]"
  by (simp add: futures_closes3 stub_coint_def hd_ramp)

lemma passing_collinear:
  "passing_pairs default_config collinear_coint closes3 =
     [(''A/USDT'', ''B/USDT'', Fin 0, NInf),
      (''A/USDT'', ''C/USDT'', Fin 0, NInf),
      (''B/USDT'', ''C/USDT'', Fin 0, NInf)]"
  by (simp add: passing_pairs_def futures_collinear default_config_fields flt_lt_def)

lemma passing_stub:
  "passing_pairs default_config stub_coint closes3 =
     [(''A/USDT'', ''B/USDT'', Fin (5 / 1000), Fin (- 3)),
      (''A/USDT'', ''C/USDT'', Fin (7 / 1000), Fin (- 4)),
      (''B/USDT'', ''C/USDT'', Fin (8 / 1000), Fin (- 5))]"
  by (simp add: passing_pairs_def futures_stub default_config_fields flt_lt_def)

lemma collected_collinear_102:
  "collected default_config collinear_coint closes3 [1, 0, 2] =
     [(''A/USDT'', ''C/USDT'', Fin 0, NInf),
      (''A/USDT'', ''B/USDT'', Fin 0, NInf),
      (''B/USDT'', ''C/USDT'', Fin 0, NInf)]"
  by (simp add: collected_def futures_collinear as_completed_def default_config_fields
                flt_lt_def)

lemma collected_stub_102:
  "collected default_config stub_coint closes3 [1, 0, 2] =
     [(''A/USDT'', ''C/USDT'', Fin (7 / 1000), Fin (- 4)),
      (''A/USDT'', ''B/USDT'', Fin (5 / 1000), Fin (- 3)),
      (''B/USDT'', ''C/USDT'', Fin (8 / 1000), Fin (- 5))]"
  by (simp add: collected_def futures_stub as_completed_def default_config_fields flt_lt_def)

lemma ranked_collinear:
  "ranked_spec default_config collinear_coint closes3 =
     [(''A/USDT'', ''B/USDT'', Fin 0, NInf),
      (''A/USDT'', ''C/USDT'', Fin 0, NInf),
      (''B/USDT'', ''C/USDT'', Fin 0, NInf)]"
  by (simp add: ranked_spec_def passing_collinear pkey_def pval_def)

lemma ranked_stub:
  "ranked_spec default_config stub_coint closes3 =
     [(''A/USDT'', ''B/USDT'', Fin (5 / 1000), Fin (- 3)),
      (''A/USDT'', ''C/USDT'', Fin (7 / 1000), Fin (- 4)),
      (''B/USDT'', ''C/USDT'', Fin (8 / 1000), Fin (- 5))]"
  by (simp add: ranked_spec_def passing_stub pkey_def pval_def)

lemma analyze_collinear_102:
  "analyze_pairs default_config collinear_coint closes3 [1, 0, 2] =
     Inr ([(''A/USDT'', ''C/USDT'', Fin 0, NInf),
           (''A/USDT'', ''B/USDT'', Fin 0, NInf),
           (''B/USDT'', ''C/USDT'', Fin 0, NInf)],
          [(''A/USDT'', ''C/USDT'', Fin 0, NInf),
           (''A/USDT'', ''B/USDT'', Fin 0, NInf),
           (''B/USDT'', ''C/USDT'', Fin 0, NInf)])"
  unfolding analyze_pairs_eq [OF workers_default] collected_collinear_102
  by (simp add: pkey_def pval_def slice_to_def default_config_fields)

lemma analyze_collinear_012:
  "analyze_pairs default_config collinear_coint closes3 [0, 1, 2] =
     Inr ([(''A/USDT'', ''B/USDT'', Fin 0, NInf),
           (''A/USDT'', ''C/USDT'', Fin 0, NInf),
           (''B/USDT'', ''C/USDT'', Fin 0, NInf)],
          [(''A/USDT'', ''B/USDT'', Fin 0, NInf),
           (''A/USDT'', ''C/USDT'', Fin 0, NInf),
           (''B/USDT'', ''C/USDT'', Fin 0, NInf)])"
  by (simp add: analyze_pairs_eq [OF workers_default] collected_def futures_collinear
                as_completed_def pkey_def pval_def slice_to_def default_config_fields
                flt_lt_def)

lemma analyze_stub_102:
  "analyze_pairs default_config stub_coint closes3 [1, 0, 2] =
     Inr ([(''A/USDT'', ''B/USDT'', Fin (5 / 1000), Fin (- 3)),
           (''A/USDT'', ''C/USDT'', Fin (7 / 1000), Fin (- 4)),
           (''B/USDT'', ''C/USDT'', Fin (8 / 1000), Fin (- 5))],
          [(''A/USDT'', ''B/USDT'', Fin (5 / 1000), Fin (- 3)),
           (''A/USDT'', ''C/USDT'', Fin (7 / 1000), Fin (- 4)),
           (''B/USDT'', ''C/USDT'', Fin (8 / 1000), Fin (- 5))])"
  unfolding analyze_pairs_eq [OF workers_default] collected_stub_102
  by (simp add: pkey_def pval_def slice_to_def default_config_fields)


subsection \<open>The ranking\<close>

lemma set_as_completed:
  "yield_order (length fs) sched \<Longrightarrow> set (as_completed sched fs) = set fs"
  by (metis mset_as_completed mset_eq_setD)

lemma collected_not_nan: "r \<in> set (collected cfg coint closes sched) \<Longrightarrow> pval r \<noteq> NaN"
  by (simp add: collected_def collect_not_nan)

lemma sorted_python_order:
  assumes "sorted (map pkey rs)" and "\<forall>r \<in> set rs. pval r \<noteq> NaN"
  shows "sorted_wrt (\<lambda>x y. \<not> flt_lt (pval y) (pval x)) rs"
proof -
  have "sorted_wrt (\<lambda>x y. pkey x \<le> pkey y) rs"
    using assms(1) by (simp add: sorted_map)
  then show ?thesis
  proof (rule sorted_wrt_mono_rel [rotated])
    fix x y assume "x \<in> set rs" "y \<in> set rs" "pkey x \<le> pkey y"
    with assms(2) show "\<not> flt_lt (pval y) (pval x)"
      by (simp add: flt_lt_key pkey_def not_less)
  qed
qed

lemma ranked_distinct:
  assumes "yield_order (length (combinations2 (columns closes))) sched"
    and "distinct (map pkey (passing_pairs cfg coint closes))"
  shows "sort_key pkey (collected cfg coint closes sched) = ranked_spec cfg coint closes"
proof -
  have "sort_key pkey (passing_pairs cfg coint closes)
          = sort_key pkey (collected cfg coint closes sched)"
  proof (rule sorted_distinct_keys_unique)
    show "mset (sort_key pkey (collected cfg coint closes sched))
            = mset (passing_pairs cfg coint closes)"
      using assms(1) by (simp add: mset_collected)
    show "distinct (map pkey (passing_pairs cfg coint closes))" by fact
    show "sorted (map pkey (sort_key pkey (collected cfg coint closes sched)))"
      by simp
  qed
  then show ?thesis
    by (simp add: ranked_spec_def)
qed

text \<open>
  Claim C1, as amended. With a positive number of workers, and whatever the order in
  which \<^verbatim>\<open>as_completed\<close> yields the futures, the list that \<^verbatim>\<open>analyze_pairs\<close> returns
  is sorted non-decreasing by p-value (no key is nan, so this is also the order of
  Python's own comparison), holds exactly the passing pairs, and is the stable sort of
  the list in which the loop collected them: pairs with equal p-values keep the order
  in which their futures were yielded, which the program does not determine. It is the
  stable sort of the enumeration-ordered list when the passing p-values are pairwise
  different.
\<close>

theorem ranked_sorted_stable_in_yield_order:
  assumes "yield_order (length (combinations2 (columns closes))) sched"
    and "0 < max_workers cfg"
  shows "\<exists>res top. analyze_pairs cfg coint closes sched = Inr (res, top)
       \<and> sorted (map pkey res)
       \<and> (\<forall>r \<in> set res. pval r \<noteq> NaN)
       \<and> sorted_wrt (\<lambda>x y. \<not> flt_lt (pval y) (pval x)) res
       \<and> mset res = mset (passing_pairs cfg coint closes)
       \<and> (\<forall>k. filter (\<lambda>r. pkey r = k) res
                = filter (\<lambda>r. pkey r = k) (collected cfg coint closes sched))
       \<and> (distinct (map pkey (passing_pairs cfg coint closes))
            \<longrightarrow> res = ranked_spec cfg coint closes)"
proof -
  define res where "res = sort_key pkey (collected cfg coint closes sched)"
  have ret: "analyze_pairs cfg coint closes sched = Inr (res, slice_to (top_n_pairs cfg) res)"
    using assms(2) by (simp add: analyze_pairs_eq res_def)
  have srt: "sorted (map pkey res)"
    by (simp add: res_def)
  have nan: "\<forall>r \<in> set res. pval r \<noteq> NaN"
    by (simp add: res_def collected_not_nan)
  have py: "sorted_wrt (\<lambda>x y. \<not> flt_lt (pval y) (pval x)) res"
    using srt nan by (rule sorted_python_order)
  have perm: "mset res = mset (passing_pairs cfg coint closes)"
    using assms(1) by (simp add: res_def mset_collected)
  have stable: "\<forall>k. filter (\<lambda>r. pkey r = k) res
                  = filter (\<lambda>r. pkey r = k) (collected cfg coint closes sched)"
    by (simp add: res_def sort_key_stable)
  have dist: "distinct (map pkey (passing_pairs cfg coint closes))
                \<longrightarrow> res = ranked_spec cfg coint closes"
    using assms(1) by (simp add: res_def ranked_distinct)
  from ret srt nan py perm stable dist show ?thesis
    by blast
qed

lemma distinct_passing_stub:
  "distinct (map pkey (passing_pairs default_config stub_coint closes3))"
  by (simp add: passing_stub pkey_def pval_def)

theorem ranked_sorted_stable_in_yield_order_witness:
  "yield_order (length (combinations2 (columns closes3))) [1, 0, 2]
   \<and> 0 < max_workers default_config
   \<and> distinct (map pkey (passing_pairs default_config stub_coint closes3))
   \<and> analyze_pairs default_config stub_coint closes3 [1, 0, 2]
       = Inr (ranked_spec default_config stub_coint closes3,
              ranked_spec default_config stub_coint closes3)
   \<and> ranked_spec default_config stub_coint closes3
       = [(''A/USDT'', ''B/USDT'', Fin (5 / 1000), Fin (- 3)),
          (''A/USDT'', ''C/USDT'', Fin (7 / 1000), Fin (- 4)),
          (''B/USDT'', ''C/USDT'', Fin (8 / 1000), Fin (- 5))]"
proof -
  obtain res top where
    ret: "analyze_pairs default_config stub_coint closes3 [1, 0, 2] = Inr (res, top)"
    and eq: "distinct (map pkey (passing_pairs default_config stub_coint closes3))
              \<longrightarrow> res = ranked_spec default_config stub_coint closes3"
    using ranked_sorted_stable_in_yield_order
            [OF closes3_order workers_default, of stub_coint]
    by blast
  from eq distinct_passing_stub
  have res: "res = ranked_spec default_config stub_coint closes3"
    by simp
  have "top = slice_to (top_n_pairs default_config) res"
    using ret by (auto simp: analyze_pairs_eq [OF workers_default])
  with res have "top = ranked_spec default_config stub_coint closes3"
    by (simp add: ranked_stub slice_to_def default_config_fields)
  with ret res distinct_passing_stub closes3_order workers_default show ?thesis
    by (simp add: ranked_stub del: One_nat_def)
qed

text \<open>
  The claim as the specification states it fails: in \<open>closes3\<close> every pair is
  collinear and has the p-value 0; when the future of the second pair is yielded
  first, the pair (A, C) is ranked before the pair (A, B), which the enumeration has
  first.
\<close>

theorem ranked_not_stable_in_enumeration_order:
  "yield_order (length (combinations2 (columns closes3))) [1, 0, 2]
   \<and> analyze_pairs default_config collinear_coint closes3 [1, 0, 2]
       = Inr ([(''A/USDT'', ''C/USDT'', Fin 0, NInf),
               (''A/USDT'', ''B/USDT'', Fin 0, NInf),
               (''B/USDT'', ''C/USDT'', Fin 0, NInf)],
              [(''A/USDT'', ''C/USDT'', Fin 0, NInf),
               (''A/USDT'', ''B/USDT'', Fin 0, NInf),
               (''B/USDT'', ''C/USDT'', Fin 0, NInf)])
   \<and> ranked_spec default_config collinear_coint closes3
       = [(''A/USDT'', ''B/USDT'', Fin 0, NInf),
          (''A/USDT'', ''C/USDT'', Fin 0, NInf),
          (''B/USDT'', ''C/USDT'', Fin 0, NInf)]
   \<and> analyze_pairs default_config collinear_coint closes3 [1, 0, 2]
       \<noteq> Inr (ranked_spec default_config collinear_coint closes3,
               slice_to (top_n_pairs default_config)
                 (ranked_spec default_config collinear_coint closes3))"
  by (simp add: closes3_order analyze_collinear_102 ranked_collinear slice_to_def
           del: One_nat_def)

lemma job_workers: "job (cfg\<lparr>max_workers := w\<rparr>) coint closes = job cfg coint closes"
  by (rule ext) (simp add: job_def calculate_cointegration_def)

lemma collected_workers:
  "collected (cfg\<lparr>max_workers := w\<rparr>) coint closes sched = collected cfg coint closes sched"
  by (simp add: collected_def futures_of_def job_workers)

text \<open>
  Claim C2, as amended. Two runs on the same matrix and the same configuration,
  whatever the positive number of workers of each and whatever the two orders in
  which \<^verbatim>\<open>as_completed\<close> yields the futures, return the same pairs, with the same
  sequence of p-values as numbers; the two rankings (and the two lists of top pairs)
  are identical when the passing p-values are pairwise different.
\<close>

theorem two_runs_same_ranking_up_to_ties:
  assumes "yield_order (length (combinations2 (columns closes))) sched1"
    and "yield_order (length (combinations2 (columns closes))) sched2"
    and "0 < max_workers cfg" and "0 < w"
  shows "\<exists>res1 top1 res2 top2.
           analyze_pairs cfg coint closes sched1 = Inr (res1, top1)
         \<and> analyze_pairs (cfg\<lparr>max_workers := w\<rparr>) coint closes sched2 = Inr (res2, top2)
         \<and> mset res1 = mset res2
         \<and> map pkey res1 = map pkey res2
         \<and> (distinct (map pkey (passing_pairs cfg coint closes))
              \<longrightarrow> res1 = res2 \<and> top1 = top2)"
proof -
  let ?cfg' = "cfg\<lparr>max_workers := w\<rparr>"
  define res1 where "res1 = sort_key pkey (collected cfg coint closes sched1)"
  define res2 where "res2 = sort_key pkey (collected cfg coint closes sched2)"
  have ret1: "analyze_pairs cfg coint closes sched1 = Inr (res1, slice_to (top_n_pairs cfg) res1)"
    using assms(3) by (simp add: analyze_pairs_eq res1_def)
  have "0 < max_workers ?cfg'"
    using assms(4) by simp
  then have ret2: "analyze_pairs ?cfg' coint closes sched2
                     = Inr (res2, slice_to (top_n_pairs cfg) res2)"
    by (simp add: analyze_pairs_eq res2_def collected_workers)
  have m: "mset (collected cfg coint closes sched1) = mset (collected cfg coint closes sched2)"
    using assms(1,2) by (simp add: mset_collected)
  then have perm: "mset res1 = mset res2"
    by (simp add: res1_def res2_def)
  have keys: "map pkey res1 = map pkey res2"
    unfolding res1_def res2_def using m by (rule sorted_same_keys)
  have dist: "distinct (map pkey (passing_pairs cfg coint closes)) \<longrightarrow> res1 = res2"
    using assms(1,2) by (simp add: res1_def res2_def ranked_distinct)
  from ret1 ret2 perm keys dist show ?thesis
    by blast
qed

theorem two_runs_same_ranking_up_to_ties_witness:
  "yield_order (length (combinations2 (columns closes3))) [1, 0, 2]
   \<and> yield_order (length (combinations2 (columns closes3))) [0, 1, 2]
   \<and> 0 < max_workers default_config \<and> (0::int) < 1
   \<and> distinct (map pkey (passing_pairs default_config stub_coint closes3))
   \<and> analyze_pairs default_config stub_coint closes3 [1, 0, 2]
       = analyze_pairs (default_config\<lparr>max_workers := 1\<rparr>) stub_coint closes3 [0, 1, 2]"
proof -
  have one: "(0::int) < 1"
    by simp
  obtain res1 top1 res2 top2 where
    r1: "analyze_pairs default_config stub_coint closes3 [1, 0, 2] = Inr (res1, top1)"
    and r2: "analyze_pairs (default_config\<lparr>max_workers := 1\<rparr>) stub_coint closes3 [0, 1, 2]
               = Inr (res2, top2)"
    and eq: "distinct (map pkey (passing_pairs default_config stub_coint closes3))
               \<longrightarrow> res1 = res2 \<and> top1 = top2"
    using two_runs_same_ranking_up_to_ties
            [OF closes3_order closes3_order_id workers_default one, of stub_coint]
    by blast
  from eq distinct_passing_stub have "res1 = res2 \<and> top1 = top2"
    by simp
  with r1 r2 distinct_passing_stub closes3_order closes3_order_id workers_default
  show ?thesis
    by (simp del: One_nat_def)
qed

text \<open>
  The claim as the specification states it fails: on \<open>closes3\<close>, where all p-values
  are equal, the runs in which the futures are yielded in the orders 0, 1, 2 and
  1, 0, 2 give different rankings.
\<close>

theorem two_runs_differ_on_ties:
  "yield_order (length (combinations2 (columns closes3))) [0, 1, 2]
   \<and> yield_order (length (combinations2 (columns closes3))) [1, 0, 2]
   \<and> analyze_pairs default_config collinear_coint closes3 [0, 1, 2]
       \<noteq> analyze_pairs default_config collinear_coint closes3 [1, 0, 2]"
  by (simp add: closes3_order closes3_order_id analyze_collinear_102 analyze_collinear_012
           del: One_nat_def)


subsection \<open>The top pairs and the filter\<close>

lemma slice_to_nonneg: "0 \<le> k \<Longrightarrow> slice_to k xs = take (nat k) xs"
  by (simp add: slice_to_def)

text \<open>
  Claim C3, as amended. With a positive number of workers and a top-K size that is
  not negative, the list of top pairs that \<^verbatim>\<open>analyze_pairs\<close> returns is the prefix of
  the ranking of length \<open>min (top_n_pairs, len(ranking))\<close>; it is the whole ranking
  when the ranking is not longer than \<open>top_n_pairs\<close>.
\<close>

theorem top_pairs_prefix:
  assumes "0 \<le> top_n_pairs cfg" and "0 < max_workers cfg"
  shows "\<exists>res top. analyze_pairs cfg coint closes sched = Inr (res, top)
       \<and> top = take (nat (top_n_pairs cfg)) res
       \<and> int (length top) = min (top_n_pairs cfg) (int (length res))
       \<and> (\<exists>rest. res = top @ rest)
       \<and> (int (length res) \<le> top_n_pairs cfg \<longrightarrow> top = res)"
proof -
  define res where "res = sort_key pkey (collected cfg coint closes sched)"
  define top where "top = take (nat (top_n_pairs cfg)) res"
  have ret: "analyze_pairs cfg coint closes sched = Inr (res, top)"
    using assms by (simp add: analyze_pairs_eq res_def top_def slice_to_nonneg)
  have "length top = min (length res) (nat (top_n_pairs cfg))"
    by (simp add: top_def)
  then have len: "int (length top) = min (top_n_pairs cfg) (int (length res))"
    using assms(1) by linarith
  have pre: "res = top @ drop (nat (top_n_pairs cfg)) res"
    by (simp add: top_def)
  have whole: "int (length res) \<le> top_n_pairs cfg \<longrightarrow> top = res"
    by (simp add: top_def)
  show ?thesis
  proof (intro exI conjI)
    show "analyze_pairs cfg coint closes sched = Inr (res, top)" by (rule ret)
    show "top = take (nat (top_n_pairs cfg)) res" by (rule top_def)
    show "int (length top) = min (top_n_pairs cfg) (int (length res))" by (rule len)
    show "res = top @ drop (nat (top_n_pairs cfg)) res" by (rule pre)
    show "int (length res) \<le> top_n_pairs cfg \<longrightarrow> top = res" by (rule whole)
  qed
qed

lemma analyze_stub_top2:
  "analyze_pairs (default_config\<lparr>top_n_pairs := 2\<rparr>) stub_coint closes3 [1, 0, 2]
       = Inr ([(''A/USDT'', ''B/USDT'', Fin (5 / 1000), Fin (- 3)),
               (''A/USDT'', ''C/USDT'', Fin (7 / 1000), Fin (- 4)),
               (''B/USDT'', ''C/USDT'', Fin (8 / 1000), Fin (- 5))],
              [(''A/USDT'', ''B/USDT'', Fin (5 / 1000), Fin (- 3)),
               (''A/USDT'', ''C/USDT'', Fin (7 / 1000), Fin (- 4))])"
proof -
  let ?cfg = "default_config\<lparr>top_n_pairs := 2\<rparr>"
  have w: "0 < max_workers ?cfg"
    by (simp add: default_config_fields)
  have "job ?cfg stub_coint closes3 = job default_config stub_coint closes3"
    by (rule ext) (simp add: job_def calculate_cointegration_def)
  then have c: "collected ?cfg stub_coint closes3 [1, 0, 2]
               = collected default_config stub_coint closes3 [1, 0, 2]"
    by (simp add: collected_def futures_of_def)
  show ?thesis
    unfolding analyze_pairs_eq [OF w] c collected_stub_102
    by (simp add: pkey_def pval_def slice_to_def)
qed

theorem top_pairs_prefix_witness:
  "0 \<le> top_n_pairs (default_config\<lparr>top_n_pairs := 2\<rparr>)
   \<and> 0 < max_workers (default_config\<lparr>top_n_pairs := 2\<rparr>)
   \<and> (\<exists>res top.
         analyze_pairs (default_config\<lparr>top_n_pairs := 2\<rparr>) stub_coint closes3 [1, 0, 2]
           = Inr (res, top)
         \<and> top = take 2 res \<and> length res = 3 \<and> length top = 2)"
proof -
  let ?cfg = "default_config\<lparr>top_n_pairs := 2\<rparr>"
  have k: "0 \<le> top_n_pairs ?cfg"
    by simp
  have w: "0 < max_workers ?cfg"
    by (simp add: default_config_fields)
  obtain res top where
    ret: "analyze_pairs ?cfg stub_coint closes3 [1, 0, 2] = Inr (res, top)"
    and t: "top = take (nat (top_n_pairs ?cfg)) res"
    using top_pairs_prefix [OF k w, of stub_coint closes3 "[1, 0, 2]"] by blast
  from ret have "length res = 3"
    unfolding analyze_stub_top2 by auto
  with ret t k w show ?thesis
    by (auto simp: numeral_2_eq_2 simp del: One_nat_def)
qed

text \<open>
  The claim as the specification states it, for every input, fails for a negative
  \<^verbatim>\<open>top_n_pairs\<close>: the slice \<^verbatim>\<open>results[:-1]\<close> drops the last pair, so of three ranked
  pairs two are returned, and two is not \<open>min (-1, 3)\<close>.
\<close>

theorem top_pairs_negative_slice:
  "analyze_pairs (default_config\<lparr>top_n_pairs := - 1\<rparr>) stub_coint closes3 [1, 0, 2]
       = Inr ([(''A/USDT'', ''B/USDT'', Fin (5 / 1000), Fin (- 3)),
               (''A/USDT'', ''C/USDT'', Fin (7 / 1000), Fin (- 4)),
               (''B/USDT'', ''C/USDT'', Fin (8 / 1000), Fin (- 5))],
              [(''A/USDT'', ''B/USDT'', Fin (5 / 1000), Fin (- 3)),
               (''A/USDT'', ''C/USDT'', Fin (7 / 1000), Fin (- 4))])
   \<and> int (length [(''A/USDT'', ''B/USDT'', Fin (5 / 1000), Fin (- 3)),
                    (''A/USDT'', ''C/USDT'', Fin (7 / 1000), Fin (- 4))])
       \<noteq> min (top_n_pairs (default_config\<lparr>top_n_pairs := - 1\<rparr>))
             (int (length [(''A/USDT'', ''B/USDT'', Fin (5 / 1000), Fin (- 3)),
                           (''A/USDT'', ''C/USDT'', Fin (7 / 1000), Fin (- 4)),
                           (''B/USDT'', ''C/USDT'', Fin (8 / 1000), Fin (- 5))]))"
proof -
  let ?cfg = "default_config\<lparr>top_n_pairs := - 1\<rparr>"
  have w: "0 < max_workers ?cfg"
    by (simp add: default_config_fields)
  have "job ?cfg stub_coint closes3 = job default_config stub_coint closes3"
    by (rule ext) (simp add: job_def calculate_cointegration_def)
  then have c: "collected ?cfg stub_coint closes3 [1, 0, 2]
               = collected default_config stub_coint closes3 [1, 0, 2]"
    by (simp add: collected_def futures_of_def)
  have "analyze_pairs ?cfg stub_coint closes3 [1, 0, 2]
       = Inr ([(''A/USDT'', ''B/USDT'', Fin (5 / 1000), Fin (- 3)),
               (''A/USDT'', ''C/USDT'', Fin (7 / 1000), Fin (- 4)),
               (''B/USDT'', ''C/USDT'', Fin (8 / 1000), Fin (- 5))],
              [(''A/USDT'', ''B/USDT'', Fin (5 / 1000), Fin (- 3)),
               (''A/USDT'', ''C/USDT'', Fin (7 / 1000), Fin (- 4))])"
    unfolding analyze_pairs_eq [OF w] c collected_stub_102
    by (simp add: pkey_def pval_def slice_to_def)
  then show ?thesis
    by simp
qed

lemma futures_member:
  "(Some r, (a, b)) \<in> set (futures_of cfg coint closes) \<longleftrightarrow>
     (a, b) \<in> set (combinations2 (columns closes))
     \<and> calculate_cointegration cfg coint (col closes a) (col closes b) = Some r"
  by (auto simp: futures_of_def job_def intro: rev_image_eqI)

lemma collected_member:
  assumes "yield_order (length (combinations2 (columns closes))) sched"
  shows "(a, b, p, s) \<in> set (collected cfg coint closes sched) \<longleftrightarrow>
           (a, b) \<in> set (combinations2 (columns closes))
           \<and> calculate_cointegration cfg coint (col closes a) (col closes b)
               = Some \<lparr>score = s, pvalue = p\<rparr>
           \<and> flt_lt p (coint_threshold cfg)"
  using assms
  by (simp add: collected_def collect_member set_as_completed length_futures_of futures_member)

text \<open>
  Claim C4. With a positive number of workers and whatever the order in which the
  futures are yielded, a tuple is in the ranking that \<^verbatim>\<open>analyze_pairs\<close> returns if and
  only if
  its pair is one of the enumerated pairs, the test of its two columns returned a
  result (not \<^verbatim>\<open>None\<close>) with that score and p-value, and the p-value is strictly
  below the threshold. When no pair passes, the analyzer returns two empty lists,
  as a value and not as an error.
\<close>

theorem ranking_membership:
  assumes "yield_order (length (combinations2 (columns closes))) sched"
    and "0 < max_workers cfg"
  shows "\<exists>res top. analyze_pairs cfg coint closes sched = Inr (res, top)
       \<and> (\<forall>a b p s. (a, b, p, s) \<in> set res \<longleftrightarrow>
             (a, b) \<in> set (combinations2 (columns closes))
             \<and> (\<exists>s1 s2. getitem closes a = Inr s1 \<and> getitem closes b = Inr s2
                  \<and> calculate_cointegration cfg coint s1 s2 = Some \<lparr>score = s, pvalue = p\<rparr>)
             \<and> flt_lt p (coint_threshold cfg))
       \<and> (passing_pairs cfg coint closes = [] \<longrightarrow> res = [] \<and> top = [])"
proof -
  define res where "res = sort_key pkey (collected cfg coint closes sched)"
  have ret: "analyze_pairs cfg coint closes sched = Inr (res, slice_to (top_n_pairs cfg) res)"
    using assms(2) by (simp add: analyze_pairs_eq res_def)
  have mem: "(a, b, p, s) \<in> set res \<longleftrightarrow>
             (a, b) \<in> set (combinations2 (columns closes))
             \<and> (\<exists>s1 s2. getitem closes a = Inr s1 \<and> getitem closes b = Inr s2
                  \<and> calculate_cointegration cfg coint s1 s2 = Some \<lparr>score = s, pvalue = p\<rparr>)
             \<and> flt_lt p (coint_threshold cfg)" for a b p s
  proof (cases "(a, b) \<in> set (combinations2 (columns closes))")
    case True
    then have "getitem closes a = Inr (col closes a)" "getitem closes b = Inr (col closes b)"
      by (auto dest: combinations2_set simp: getitem_col)
    then show ?thesis
      using True by (simp add: res_def collected_member [OF assms(1)])
  next
    case False
    then show ?thesis
      by (simp add: res_def collected_member [OF assms(1)])
  qed
  have "mset res = mset (passing_pairs cfg coint closes)"
    using assms(1) by (simp add: res_def mset_collected)
  then have empty: "passing_pairs cfg coint closes = [] \<longrightarrow>
                      res = [] \<and> slice_to (top_n_pairs cfg) res = []"
    by (auto simp: slice_to_def)
  show ?thesis
  proof (intro exI conjI allI)
    show "analyze_pairs cfg coint closes sched = Inr (res, slice_to (top_n_pairs cfg) res)"
      by (rule ret)
    show "(a, b, p, s) \<in> set res \<longleftrightarrow>
             (a, b) \<in> set (combinations2 (columns closes))
             \<and> (\<exists>s1 s2. getitem closes a = Inr s1 \<and> getitem closes b = Inr s2
                  \<and> calculate_cointegration cfg coint s1 s2 = Some \<lparr>score = s, pvalue = p\<rparr>)
             \<and> flt_lt p (coint_threshold cfg)" for a b p s
      by (rule mem)
    show "passing_pairs cfg coint closes = [] \<longrightarrow>
            res = [] \<and> slice_to (top_n_pairs cfg) res = []"
      by (rule empty)
  qed
qed

theorem ranking_membership_witness:
  "yield_order (length (combinations2 (columns closes3))) [1, 0, 2]
   \<and> 0 < max_workers (default_config\<lparr>coint_threshold := Fin 0\<rparr>)
   \<and> passing_pairs (default_config\<lparr>coint_threshold := Fin 0\<rparr>) collinear_coint closes3 = []
   \<and> analyze_pairs (default_config\<lparr>coint_threshold := Fin 0\<rparr>) collinear_coint closes3 [1, 0, 2]
       = Inr ([], [])"
proof -
  let ?cfg = "default_config\<lparr>coint_threshold := Fin 0\<rparr>"
  have w: "0 < max_workers ?cfg"
    by (simp add: default_config_fields)
  have "job ?cfg collinear_coint closes3 = job default_config collinear_coint closes3"
    by (rule ext) (simp add: job_def calculate_cointegration_def)
  then have "futures_of ?cfg collinear_coint closes3
               = futures_of default_config collinear_coint closes3"
    by (simp add: futures_of_def)
  then have none: "passing_pairs ?cfg collinear_coint closes3 = []"
    by (simp add: passing_pairs_def futures_collinear flt_lt_def)
  obtain res top where
    ret: "analyze_pairs ?cfg collinear_coint closes3 [1, 0, 2] = Inr (res, top)"
    and e: "passing_pairs ?cfg collinear_coint closes3 = [] \<longrightarrow> res = [] \<and> top = []"
    using ranking_membership [OF closes3_order w, of collinear_coint] by blast
  from ret e none closes3_order w show ?thesis
    by (simp del: One_nat_def)
qed


subsection \<open>Ineligible and failing pairs\<close>










subsection \<open>A failing pair\<close>

lemma calculate_cointegration_caught:
  "coint s1 s2 = Inl e \<Longrightarrow> calculate_cointegration cfg coint s1 s2 = None"
  by (simp add: calculate_cointegration_def)

lemma calculate_cointegration_raising:
  "calculate_cointegration cfg (raising_at e x y coint) s1 s2 =
     (if s1 = x \<and> s2 = y then None else calculate_cointegration cfg coint s1 s2)"
  by (simp add: calculate_cointegration_def raising_at_def)

lemma as_completed_map:
  "\<forall>i \<in> set sched. i < length xs \<Longrightarrow>
   as_completed sched (map g xs) = map g (as_completed sched xs)"
  by (simp add: as_completed_def)

lemma job_raising:
  "job cfg (raising_at e x y coint) closes pair =
     (if col closes (fst pair) = x \<and> col closes (snd pair) = y then (None, pair)
      else job cfg coint closes pair)"
  by (simp add: job_def calculate_cointegration_raising)

lemma collect_raising:
  assumes "\<forall>pair \<in> set ps. fst pair \<in> set (columns closes) \<and> snd pair \<in> set (columns closes)"
  shows "collect thr (map (job cfg (raising_at e x y coint) closes) ps) =
           filter (\<lambda>r. \<not> (getitem closes (fst r) = Inr x \<and> getitem closes (fst (snd r)) = Inr y))
             (collect thr (map (job cfg coint closes) ps))"
  using assms
proof (induction ps)
  case Nil
  then show ?case by simp
next
  case (Cons pair ps)
  then have a: "getitem closes (fst pair) = Inr (col closes (fst pair))"
    and b: "getitem closes (snd pair) = Inr (col closes (snd pair))"
    by (simp_all add: getitem_col)
  from Cons have IH:
    "collect thr (map (job cfg (raising_at e x y coint) closes) ps) =
       filter (\<lambda>r. \<not> (getitem closes (fst r) = Inr x \<and> getitem closes (fst (snd r)) = Inr y))
         (collect thr (map (job cfg coint closes) ps))"
    by simp
  obtain r where j: "job cfg coint closes pair = (r, pair)"
    by (simp add: job_def)
  have "collect thr (job cfg (raising_at e x y coint) closes pair
                      # map (job cfg (raising_at e x y coint) closes) ps) =
        filter (\<lambda>r. \<not> (getitem closes (fst r) = Inr x \<and> getitem closes (fst (snd r)) = Inr y))
          (collect thr (job cfg coint closes pair # map (job cfg coint closes) ps))"
  proof (cases "col closes (fst pair) = x \<and> col closes (snd pair) = y")
    case True
    then have h: "job cfg (raising_at e x y coint) closes pair = (None, pair)"
      by (simp add: job_raising)
    show ?thesis
      unfolding h j using True a b by (cases r) (simp_all add: IH)
  next
    case False
    then have h: "job cfg (raising_at e x y coint) closes pair = (r, pair)"
      unfolding job_raising j by auto
    show ?thesis
      unfolding h j using False a b by (cases r) (auto simp: IH)
  qed
  then show ?case
    by simp
qed

lemma collected_raising:
  assumes "yield_order (length (combinations2 (columns closes))) sched"
  shows "collected cfg (raising_at e x y coint) closes sched =
           filter (\<lambda>r. \<not> (getitem closes (fst r) = Inr x \<and> getitem closes (fst (snd r)) = Inr y))
             (collected cfg coint closes sched)"
proof -
  let ?pairs = "combinations2 (columns closes)"
  have bound: "\<forall>i \<in> set sched. i < length ?pairs"
  proof (rule ballI)
    fix i assume "i \<in> set sched"
    with assms show "i < length ?pairs"
      by (rule yield_order_bound)
  qed
  have cols: "\<forall>pair \<in> set (as_completed sched ?pairs).
                fst pair \<in> set (columns closes) \<and> snd pair \<in> set (columns closes)"
  proof (rule ballI)
    fix pair assume "pair \<in> set (as_completed sched ?pairs)"
    then have "pair \<in> set ?pairs"
      using assms by (simp add: set_as_completed)
    then have "(fst pair, snd pair) \<in> set ?pairs"
      by simp
    then show "fst pair \<in> set (columns closes) \<and> snd pair \<in> set (columns closes)"
      by (rule combinations2_set)
  qed
  have "as_completed sched (map (job cfg (raising_at e x y coint) closes) ?pairs)
          = map (job cfg (raising_at e x y coint) closes) (as_completed sched ?pairs)"
    using bound by (rule as_completed_map)
  moreover have "as_completed sched (map (job cfg coint closes) ?pairs)
          = map (job cfg coint closes) (as_completed sched ?pairs)"
    using bound by (rule as_completed_map)
  ultimately show ?thesis
    unfolding collected_def futures_of_def
    by (simp only: collect_raising [OF cols])
qed

text \<open>
  Claim C9. A failure raised by the library test (the unit-root test included, which
  it calls) is caught in \<^verbatim>\<open>calculate_cointegration\<close> and becomes \<^verbatim>\<open>None\<close>; the function
  is total and has no other result than \<^verbatim>\<open>None\<close> or a dictionary. A pair whose test
  fails does not abort or alter the rest of the batch: with a positive number of
  workers and whatever the order in which the futures are yielded, making the test
  raise on the series \<open>x\<close> and \<open>y\<close> leaves \<^verbatim>\<open>analyze_pairs\<close> returning, and its ranking
  is the former ranking without the tuples of the pairs with these two series, all
  others in place.
\<close>

theorem pair_failure_is_local:
  assumes "yield_order (length (combinations2 (columns closes))) sched"
    and "0 < max_workers cfg"
  shows "(coint x y = Inl e \<longrightarrow> calculate_cointegration cfg coint x y = None)
       \<and> calculate_cointegration cfg (raising_at e x y coint) x y = None
       \<and> (\<exists>res top res' top'.
             analyze_pairs cfg coint closes sched = Inr (res, top)
           \<and> analyze_pairs cfg (raising_at e x y coint) closes sched = Inr (res', top')
           \<and> res' = filter (\<lambda>r. \<not> (getitem closes (fst r) = Inr x
                                    \<and> getitem closes (fst (snd r)) = Inr y)) res)"
proof (intro conjI)
  show "coint x y = Inl e \<longrightarrow> calculate_cointegration cfg coint x y = None"
    by (simp add: calculate_cointegration_caught)
  show "calculate_cointegration cfg (raising_at e x y coint) x y = None"
    by (simp add: calculate_cointegration_raising)
  let ?keep = "\<lambda>r. \<not> (getitem closes (fst r) = Inr x \<and> getitem closes (fst (snd r)) = Inr y)"
  define res where "res = sort_key pkey (collected cfg coint closes sched)"
  define res' where "res' = sort_key pkey (collected cfg (raising_at e x y coint) closes sched)"
  have ret: "analyze_pairs cfg coint closes sched = Inr (res, slice_to (top_n_pairs cfg) res)"
    using assms(2) by (simp add: analyze_pairs_eq res_def)
  have ret': "analyze_pairs cfg (raising_at e x y coint) closes sched
                = Inr (res', slice_to (top_n_pairs cfg) res')"
    using assms(2) by (simp add: analyze_pairs_eq res'_def)
  have "res' = filter ?keep res"
    unfolding res_def res'_def collected_raising [OF assms(1)]
    by (simp only: filter_sort)
  with ret ret'
  show "\<exists>res top res' top'.
             analyze_pairs cfg coint closes sched = Inr (res, top)
           \<and> analyze_pairs cfg (raising_at e x y coint) closes sched = Inr (res', top')
           \<and> res' = filter ?keep res"
    by blast
qed

lemma ramp_eq_iff: "ramp k = ramp j \<longleftrightarrow> k = j"
proof
  assume "ramp k = ramp j"
  then have "hd (ramp k) = hd (ramp j)"
    by simp
  then show "k = j"
    by (simp add: hd_ramp)
qed simp

lemma getitem_closes3:
  "getitem closes3 ''A/USDT'' = Inr (ramp 1)"
  "getitem closes3 ''B/USDT'' = Inr (ramp 2)"
  "getitem closes3 ''C/USDT'' = Inr (ramp 3)"
  by (simp_all add: getitem_def entries_closes3)

theorem pair_failure_is_local_witness:
  "yield_order (length (combinations2 (columns closes3))) [1, 0, 2]
   \<and> 0 < max_workers default_config
   \<and> calculate_cointegration default_config
        (raising_at ''SVD did not converge'' (ramp 1) (ramp 2) stub_coint) (ramp 1) (ramp 2) = None
   \<and> (\<exists>top'. analyze_pairs default_config
                 (raising_at ''SVD did not converge'' (ramp 1) (ramp 2) stub_coint)
                 closes3 [1, 0, 2]
               = Inr ([(''A/USDT'', ''C/USDT'', Fin (7 / 1000), Fin (- 4)),
                       (''B/USDT'', ''C/USDT'', Fin (8 / 1000), Fin (- 5))], top'))"
proof -
  note inst = pair_failure_is_local
    [OF closes3_order workers_default,
     of stub_coint "ramp 1" "ramp 2" "''SVD did not converge''"]
  from inst have none:
    "calculate_cointegration default_config
        (raising_at ''SVD did not converge'' (ramp 1) (ramp 2) stub_coint) (ramp 1) (ramp 2) = None"
    by blast
  from inst obtain res top res' top' where
    ret: "analyze_pairs default_config stub_coint closes3 [1, 0, 2] = Inr (res, top)"
    and ret': "analyze_pairs default_config
                 (raising_at ''SVD did not converge'' (ramp 1) (ramp 2) stub_coint)
                 closes3 [1, 0, 2] = Inr (res', top')"
    and eq: "res' = filter (\<lambda>r. \<not> (getitem closes3 (fst r) = Inr (ramp 1)
                                    \<and> getitem closes3 (fst (snd r)) = Inr (ramp 2))) res"
    by blast
  from ret have "res = [(''A/USDT'', ''B/USDT'', Fin (5 / 1000), Fin (- 3)),
                        (''A/USDT'', ''C/USDT'', Fin (7 / 1000), Fin (- 4)),
                        (''B/USDT'', ''C/USDT'', Fin (8 / 1000), Fin (- 5))]"
    unfolding analyze_stub_102 by simp
  with eq have "res' = [(''A/USDT'', ''C/USDT'', Fin (7 / 1000), Fin (- 4)),
                        (''B/USDT'', ''C/USDT'', Fin (8 / 1000), Fin (- 5))]"
    by (simp add: getitem_closes3 ramp_eq_iff)
  with ret' none closes3_order workers_default show ?thesis
    by blast
qed



subsection \<open>The symbol lookup\<close>

lemma lookup_symbol:
  assumes "upper (strip line) \<noteq> ''X''" and "upper (strip line) \<noteq> ''LIST''"
  shows "\<exists>first_line.
           lookup all_pairs line =
             Printed (first_line # map pair_line (matching_pairs all_pairs (upper (strip line))))"
  using assms by (simp add: lookup_def Let_def)

lemma subseq_matching_pairs: "subseq (matching_pairs all_pairs q) all_pairs"
  by (simp add: matching_pairs_def)

lemma set_matching_pairs:
  "set (matching_pairs all_pairs q)
     = {pair \<in> set all_pairs. split_root (fst pair) = q \<or> split_root (fst (snd pair)) = q}"
  by (simp add: matching_pairs_def)

lemma matching_pairs_upper_roots:
  assumes "\<forall>pair\<in>set all_pairs.
             upper (split_root (fst pair)) = split_root (fst pair)
             \<and> upper (split_root (fst (snd pair))) = split_root (fst (snd pair))"
  shows "matching_pairs all_pairs (upper query) = find_by_symbol_spec query all_pairs"
  unfolding matching_pairs_def find_by_symbol_spec_def
  using assms by (intro filter_cong refl) simp

text \<open>
  Claim C7, as amended. The user types an ASCII line; \<open>q\<close> is the line
  stripped and put in upper case, and it is neither of the two commands \<^verbatim>\<open>X\<close> and
  \<^verbatim>\<open>LIST\<close>. Then the lines printed after the first one are the lines of exactly the
  pairs of the ranking of which the root of a leg (what stands before the first
  \<^verbatim>\<open>/\<close>) is equal to \<open>q\<close>, character by character, in the order of the ranking. Only
  the query is put in upper case, the symbols are compared as they are: the match
  ignores letter case, as the specification has it, when the roots of the ranking
  are in upper case.
\<close>

theorem lookup_prints_exact_root_matches:
  assumes "ascii line"
    and "upper (strip line) \<noteq> ''X''" and "upper (strip line) \<noteq> ''LIST''"
  shows "(\<exists>first_line.
            lookup all_pairs line =
              Printed (first_line
                       # map pair_line (matching_pairs all_pairs (upper (strip line)))))
       \<and> subseq (matching_pairs all_pairs (upper (strip line))) all_pairs
       \<and> set (matching_pairs all_pairs (upper (strip line)))
           = {pair \<in> set all_pairs. split_root (fst pair) = upper (strip line)
                                   \<or> split_root (fst (snd pair)) = upper (strip line)}
       \<and> ((\<forall>pair\<in>set all_pairs.
               ascii (fst pair) \<and> ascii (fst (snd pair))
               \<and> upper (split_root (fst pair)) = split_root (fst pair)
               \<and> upper (split_root (fst (snd pair))) = split_root (fst (snd pair)))
            \<longrightarrow> matching_pairs all_pairs (upper (strip line))
                  = find_by_symbol_spec (strip line) all_pairs)"
proof (intro conjI impI)
  show "\<exists>first_line.
          lookup all_pairs line =
            Printed (first_line
                     # map pair_line (matching_pairs all_pairs (upper (strip line))))"
    using assms(2,3) by (rule lookup_symbol)
  show "subseq (matching_pairs all_pairs (upper (strip line))) all_pairs"
    by (rule subseq_matching_pairs)
  show "set (matching_pairs all_pairs (upper (strip line)))
          = {pair \<in> set all_pairs. split_root (fst pair) = upper (strip line)
                                  \<or> split_root (fst (snd pair)) = upper (strip line)}"
    by (rule set_matching_pairs)
next
  assume "\<forall>pair\<in>set all_pairs.
            ascii (fst pair) \<and> ascii (fst (snd pair))
            \<and> upper (split_root (fst pair)) = split_root (fst pair)
            \<and> upper (split_root (fst (snd pair))) = split_root (fst (snd pair))"
  then have "\<forall>pair\<in>set all_pairs.
               upper (split_root (fst pair)) = split_root (fst pair)
               \<and> upper (split_root (fst (snd pair))) = split_root (fst (snd pair))"
    by simp
  then show "matching_pairs all_pairs (upper (strip line))
               = find_by_symbol_spec (strip line) all_pairs"
    by (rule matching_pairs_upper_roots)
qed

theorem lookup_prints_exact_root_matches_witness:
  "ascii '' eth'' \<and> upper (strip '' eth'') = ''ETH''
   \<and> lookup ranked_example '' eth''
       = Printed [CHR 0x0A # ''Cointegrated pairs containing ETH:'',
                  ''ETH/USDT:USDT - SOL/USDT:USDT: p-value=0.0100, score=-4.00'',
                  ''BTC/USDT:USDT - ETH/USDT:USDT: p-value=0.0200, score=-3.50'']
   \<and> matching_pairs ranked_example ''ETH''
       = [(''ETH/USDT:USDT'', ''SOL/USDT:USDT'', Fin (1 / 100), Fin (- 4)),
          (''BTC/USDT:USDT'', ''ETH/USDT:USDT'', Fin (2 / 100), Fin (- 7 / 2))]
   \<and> find_by_symbol_spec ''eth'' ranked_example = matching_pairs ranked_example ''ETH''"
proof -
  have a: "ascii '' eth''"
    by code_simp
  have q: "upper (strip '' eth'') = ''ETH''"
    by code_simp
  have s: "strip '' eth'' = ''eth''"
    by code_simp
  have x: "upper (strip '' eth'') \<noteq> ''X''" and l: "upper (strip '' eth'') \<noteq> ''LIST''"
    unfolding q by simp_all
  have u: "\<forall>pair\<in>set ranked_example.
             ascii (fst pair) \<and> ascii (fst (snd pair))
             \<and> upper (split_root (fst pair)) = split_root (fst pair)
             \<and> upper (split_root (fst (snd pair))) = split_root (fst (snd pair))"
    by code_simp
  note inst = lookup_prints_exact_root_matches [OF a x l, of ranked_example]
  from inst u have e: "matching_pairs ranked_example (upper (strip '' eth''))
                         = find_by_symbol_spec (strip '' eth'') ranked_example"
    by blast
  have m: "matching_pairs ranked_example ''ETH''
             = [(''ETH/USDT:USDT'', ''SOL/USDT:USDT'', Fin (1 / 100), Fin (- 4)),
                (''BTC/USDT:USDT'', ''ETH/USDT:USDT'', Fin (2 / 100), Fin (- 7 / 2))]"
    by code_simp
  have p: "lookup ranked_example '' eth''
             = Printed [CHR 0x0A # ''Cointegrated pairs containing ETH:'',
                        ''ETH/USDT:USDT - SOL/USDT:USDT: p-value=0.0100, score=-4.00'',
                        ''BTC/USDT:USDT - ETH/USDT:USDT: p-value=0.0200, score=-3.50'']"
    by code_simp
  have "upper ''eth'' = ''ETH''"
    by code_simp
  with e have "find_by_symbol_spec ''eth'' ranked_example = matching_pairs ranked_example ''ETH''"
    unfolding s by simp
  with a q p m show ?thesis
    by simp
qed

text \<open>
  Claim C7 as the specification states it, for every ranking, fails when a symbol
  of the ranking has lower-case letters: the query \<^verbatim>\<open>btc\<close> becomes \<^verbatim>\<open>BTC\<close>, which is
  not the root \<^verbatim>\<open>btc\<close> of the first leg, so nothing is found, where the match that
  ignores letter case finds the pair.
\<close>

theorem lookup_misses_lower_case_symbol:
  "find_by_symbol_spec ''btc'' ranked_lower
     = [(''btc/USDT'', ''ETH/USDT'', Fin (1 / 100), Fin (- 4))]
   \<and> matching_pairs ranked_lower (upper (strip ''btc'')) = []
   \<and> lookup ranked_lower ''btc''
       = Printed [CHR 0x0A # ''No cointegrated pairs found for asset BTC. ''
                  @ ''Please try another asset or press '' @ [CHR 0x27, CHR ''x'', CHR 0x27]
                  @ '' to exit.'']"
  by code_simp


subsection \<open>The format of the output\<close>

lemma is_digit_digit_char: "is_digit (digit_char d)"
proof -
  have "d mod 10 < length ''0123456789''"
    by simp
  then have "''0123456789'' ! (d mod 10) \<in> set ''0123456789''"
    by (rule nth_mem)
  then show ?thesis
    by (simp only: is_digit_def digit_char_def)
qed

lemma length_digits_fixed: "length (digits_fixed k m) = k"
  by (induction k arbitrary: m) simp_all

lemma digits_digits_fixed: "list_all is_digit (digits_fixed k m)"
  by (induction k arbitrary: m) (simp_all add: is_digit_digit_char)

lemma show_nat_digits: "show_nat m \<noteq> [] \<and> list_all is_digit (show_nat m)"
proof (induction m rule: show_nat.induct)
  case (1 m)
  have e: "show_nat m = (if m < 10 then [digit_char m] else show_nat (m div 10) @ [digit_char m])"
    by (rule show_nat.simps)
  show ?case
  proof (cases "m < 10")
    case True
    with e show ?thesis
      by (simp add: is_digit_digit_char)
  next
    case False
    with 1 have "list_all is_digit (show_nat (m div 10))"
      by simp
    with False e show ?thesis
      by (simp add: is_digit_digit_char)
  qed
qed

lemma not_digit_point: "\<not> is_digit CHR ''.''"
  by (simp add: is_digit_def)

lemma not_digit_minus: "\<not> is_digit CHR ''-''"
  by (simp add: is_digit_def)

lemma digits_then_point:
  assumes "list_all is_digit ip"
  shows "takeWhile is_digit (ip @ CHR ''.'' # fp) = ip"
    and "dropWhile is_digit (ip @ CHR ''.'' # fp) = CHR ''.'' # fp"
  using assms by (simp_all add: list_all_iff not_digit_point)

lemma has_decimals_unsigned:
  assumes "ip \<noteq> []" and "list_all is_digit ip" and "list_all is_digit fp" and "length fp = n"
  shows "has_decimals n (ip @ CHR ''.'' # fp)"
proof -
  obtain c cs where ip: "ip = c # cs"
    using assms(1) by (cases ip) auto
  with assms(2) have "is_digit c"
    by simp
  with not_digit_minus have c: "c \<noteq> CHR ''-''"
    by auto
  have "has_decimals n (c # cs @ CHR ''.'' # fp)"
    using c assms(2-4) digits_then_point [OF assms(2), of fp]
    by (simp add: has_decimals_def Let_def ip)
  then show ?thesis
    by (simp add: ip)
qed

lemma has_decimals_signed:
  assumes "ip \<noteq> []" and "list_all is_digit ip" and "list_all is_digit fp" and "length fp = n"
  shows "has_decimals n (CHR ''-'' # ip @ CHR ''.'' # fp)"
  using assms digits_then_point [OF assms(2), of fp]
  by (simp add: has_decimals_def Let_def)

lemma has_decimals_format_f:
  assumes "0 < n" and "is_finite x"
  shows "has_decimals n (format_f n x)"
proof (cases x)
  case (Fin r)
  have u: "has_decimals n (show_nat q @ CHR ''.'' # digits_fixed n f)" for q f
    by (rule has_decimals_unsigned)
       (simp_all add: show_nat_digits digits_digits_fixed length_digits_fixed)
  have s: "has_decimals n (CHR ''-'' # show_nat q @ CHR ''.'' # digits_fixed n f)" for q f
    by (rule has_decimals_signed)
       (simp_all add: show_nat_digits digits_digits_fixed length_digits_fixed)
  from assms(1) show ?thesis
    by (simp add: Fin format_f_def Let_def u s)
next
  case NZero
  have "has_decimals n (CHR ''-'' # [CHR ''0''] @ CHR ''.'' # replicate n (CHR ''0''))"
    by (rule has_decimals_signed) (simp_all add: is_digit_def list_all_iff)
  with assms(1) show ?thesis
    by (simp add: NZero format_f_def)
qed (use assms(2) in \<open>simp_all add: is_finite_def\<close>)

lemma main_collinear:
  "main_analysis default_config collinear_coint closes3 [0, 1, 2] =
     Inr (Saved ''pairs_to_trade.csv''
            (map output_record
               [(''A/USDT'', ''B/USDT'', Fin 0, NInf),
                (''A/USDT'', ''C/USDT'', Fin 0, NInf),
                (''B/USDT'', ''C/USDT'', Fin 0, NInf)])
            [(''A/USDT'', ''B/USDT'', Fin 0, NInf),
             (''A/USDT'', ''C/USDT'', Fin 0, NInf),
             (''B/USDT'', ''C/USDT'', Fin 0, NInf)])"
  unfolding main_analysis_def analyze_collinear_012
  by (simp add: columns_closes3 default_config_fields)

text \<open>
  Claim C8, as amended. The record written for a pair has the field \<^verbatim>\<open>Pair\<close> with the
  two symbols joined by \<^verbatim>\<open>-\<close>, then \<^verbatim>\<open>P-Value\<close> and \<^verbatim>\<open>Score\<close>; the line printed for a
  pair by the lookup loop has the two symbols, the p-value and the score. In both,
  when the p-value and the score are numbers (not \<^verbatim>\<open>nan\<close>, not an infinity), the
  p-value is written with exactly four decimal places and the score with exactly
  two.
\<close>

theorem formatted_to_fixed_decimals:
  assumes "is_finite p" and "is_finite s"
  shows "output_record (a, b, p, s)
           = [(''Pair'', a @ ''-'' @ b), (''P-Value'', format_f 4 p), (''Score'', format_f 2 s)]
       \<and> pair_line (a, b, p, s)
           = a @ '' - '' @ b @ '': p-value='' @ format_f 4 p @ '', score='' @ format_f 2 s
       \<and> has_decimals 4 (format_f 4 p) \<and> has_decimals 2 (format_f 2 s)"
proof (intro conjI)
  show "output_record (a, b, p, s)
          = [(''Pair'', a @ ''-'' @ b), (''P-Value'', format_f 4 p), (''Score'', format_f 2 s)]"
    by (simp add: output_record_def)
  show "pair_line (a, b, p, s)
          = a @ '' - '' @ b @ '': p-value='' @ format_f 4 p @ '', score='' @ format_f 2 s"
    by (simp add: pair_line_def)
  show "has_decimals 4 (format_f 4 p)"
    using assms(1) by (intro has_decimals_format_f) simp_all
  show "has_decimals 2 (format_f 2 s)"
    using assms(2) by (intro has_decimals_format_f) simp_all
qed

theorem formatted_to_fixed_decimals_witness:
  "is_finite (Fin (1 / 100)) \<and> is_finite (Fin (- 7 / 2))
   \<and> output_record (''BTC/USDT:USDT'', ''ETH/USDT:USDT'', Fin (1 / 100), Fin (- 7 / 2))
       = [(''Pair'', ''BTC/USDT:USDT-ETH/USDT:USDT''), (''P-Value'', ''0.0100''),
          (''Score'', ''-3.50'')]
   \<and> pair_line (''BTC/USDT:USDT'', ''ETH/USDT:USDT'', Fin (1 / 100), Fin (- 7 / 2))
       = ''BTC/USDT:USDT - ETH/USDT:USDT: p-value=0.0100, score=-3.50''
   \<and> has_decimals 4 ''0.0100'' \<and> has_decimals 2 ''-3.50''"
proof -
  have p: "is_finite (Fin (1 / 100))" and s: "is_finite (Fin (- 7 / 2))"
    by (simp_all add: is_finite_def)
  have fp: "format_f 4 (Fin (1 / 100)) = ''0.0100''"
    by code_simp
  have fs: "format_f 2 (Fin (- 7 / 2)) = ''-3.50''"
    by code_simp
  note inst = formatted_to_fixed_decimals [OF p s, of "''BTC/USDT:USDT''" "''ETH/USDT:USDT''"]
  from inst p s show ?thesis
    unfolding fp fs by simp
qed

text \<open>
  Claim C8 as the specification states it, for every emitted pair, fails for a score
  that is an infinity. The columns of \<open>closes3\<close> are collinear; the library test
  then answers the statistic \<^verbatim>\<open>-inf\<close> with the p-value \<^verbatim>\<open>0.0\<close>, the pairs pass the
  threshold, and the records that \<^verbatim>\<open>main\<close> writes have the score \<^verbatim>\<open>-inf\<close>, which has no
  decimal places; the line of the lookup loop has it too.
\<close>

theorem infinite_score_has_no_decimals:
  "main_analysis default_config collinear_coint closes3 [0, 1, 2] =
     Inr (Saved ''pairs_to_trade.csv''
            [[(''Pair'', ''A/USDT-B/USDT''), (''P-Value'', ''0.0000''), (''Score'', ''-inf'')],
             [(''Pair'', ''A/USDT-C/USDT''), (''P-Value'', ''0.0000''), (''Score'', ''-inf'')],
             [(''Pair'', ''B/USDT-C/USDT''), (''P-Value'', ''0.0000''), (''Score'', ''-inf'')]]
            [(''A/USDT'', ''B/USDT'', Fin 0, NInf),
             (''A/USDT'', ''C/USDT'', Fin 0, NInf),
             (''B/USDT'', ''C/USDT'', Fin 0, NInf)])
   \<and> pair_line (''A/USDT'', ''B/USDT'', Fin 0, NInf)
       = ''A/USDT - B/USDT: p-value=0.0000, score=-inf''
   \<and> \<not> has_decimals 2 ''-inf''"
proof (intro conjI)
  have r: "map output_record
             [(''A/USDT'', ''B/USDT'', Fin 0, NInf),
              (''A/USDT'', ''C/USDT'', Fin 0, NInf),
              (''B/USDT'', ''C/USDT'', Fin 0, NInf)]
           = [[(''Pair'', ''A/USDT-B/USDT''), (''P-Value'', ''0.0000''), (''Score'', ''-inf'')],
              [(''Pair'', ''A/USDT-C/USDT''), (''P-Value'', ''0.0000''), (''Score'', ''-inf'')],
              [(''Pair'', ''B/USDT-C/USDT''), (''P-Value'', ''0.0000''), (''Score'', ''-inf'')]]"
    by code_simp
  show "main_analysis default_config collinear_coint closes3 [0, 1, 2] =
          Inr (Saved ''pairs_to_trade.csv''
                 [[(''Pair'', ''A/USDT-B/USDT''), (''P-Value'', ''0.0000''), (''Score'', ''-inf'')],
                  [(''Pair'', ''A/USDT-C/USDT''), (''P-Value'', ''0.0000''), (''Score'', ''-inf'')],
                  [(''Pair'', ''B/USDT-C/USDT''), (''P-Value'', ''0.0000''), (''Score'', ''-inf'')]]
                 [(''A/USDT'', ''B/USDT'', Fin 0, NInf),
                  (''A/USDT'', ''C/USDT'', Fin 0, NInf),
                  (''B/USDT'', ''C/USDT'', Fin 0, NInf)])"
    unfolding main_collinear r by (rule refl)
  show "pair_line (''A/USDT'', ''B/USDT'', Fin 0, NInf)
          = ''A/USDT - B/USDT: p-value=0.0000, score=-inf''"
    by code_simp
  show "\<not> has_decimals 2 ''-inf''"
    by code_simp
qed

end
